theory Spec2Isabelle
  imports Complex_Main
begin

section \<open>Errors and array primitives\<close>

text \<open>
  The notebooks are Python; every exception that one of their own statements can raise is a
  value of \<open>py_error\<close>, and a statement that can raise returns \<open>py_error + 'a\<close>.
\<close>

datatype py_error = ValueError | ZeroDivisionError | IndexError | FileNotFoundError

definition ebind :: "py_error + 'a \<Rightarrow> ('a \<Rightarrow> py_error + 'b) \<Rightarrow> py_error + 'b" where
  "ebind m f = (case m of Inl e \<Rightarrow> Inl e | Inr x \<Rightarrow> f x)"

fun emap :: "('a \<Rightarrow> py_error + 'b) \<Rightarrow> 'a list \<Rightarrow> py_error + 'b list" where
  "emap f [] = Inr []"
| "emap f (x # xs) =
     (case f x of Inl e \<Rightarrow> Inl e
      | Inr y \<Rightarrow> (case emap f xs of Inl e \<Rightarrow> Inl e | Inr ys \<Rightarrow> Inr (y # ys)))"

text \<open>
  A bead is a list of coordinates, a frame a list of beads, a trajectory a list of frames:
  the arrays \<open>coords\<close> and \<open>forces\<close> of shape \<open>(N, 5, 3)\<close>.
\<close>

type_synonym bead = "real list"
type_synonym frame = "bead list"

definition frame_shape :: "frame \<Rightarrow> nat \<Rightarrow> nat \<Rightarrow> bool" where
  "frame_shape f b d = (length f = b \<and> list_all (\<lambda>p. length p = d) f)"

definition has_shape :: "frame list \<Rightarrow> nat \<Rightarrow> nat \<Rightarrow> nat \<Rightarrow> bool" where
  "has_shape arr n b d = (length arr = n \<and> list_all (\<lambda>f. frame_shape f b d) arr)"

text \<open>\<open>np.tile(row, [n, m])\<close> for a one-dimensional \<open>row\<close>: \<open>n\<close> rows, each \<open>m\<close> copies of it.\<close>

definition np_tile :: "'a list \<Rightarrow> nat \<Rightarrow> nat \<Rightarrow> 'a list list" where
  "np_tile row n m = replicate n (concat (replicate m row))"

text \<open>Python's \<open>a // b\<close> on non-negative integers.\<close>

definition py_floordiv :: "nat \<Rightarrow> nat \<Rightarrow> py_error + nat" where
  "py_floordiv a b = (if b = 0 then Inl ZeroDivisionError else Inr (a div b))"

text \<open>\<open>np.arange(start, stop, step)\<close> on non-negative integers; a zero step raises.\<close>

function arange_from :: "nat \<Rightarrow> nat \<Rightarrow> nat \<Rightarrow> nat list" where
  "arange_from i stop step =
     (if 0 < step \<and> i < stop then i # arange_from (i + step) stop step else [])"
  by pat_completeness auto
termination
  by (relation "measure (\<lambda>(i, stop, step). stop - i)") auto

declare arange_from.simps [simp del]

definition np_arange :: "nat \<Rightarrow> nat \<Rightarrow> nat \<Rightarrow> py_error + nat list" where
  "np_arange start stop step =
     (if step = 0 then Inl ZeroDivisionError else Inr (arange_from start stop step))"

text \<open>Indexing \<open>arr[i]\<close> with a non-negative index.\<close>

definition getitem :: "'a list \<Rightarrow> nat \<Rightarrow> py_error + 'a" where
  "getitem arr i = (if i < length arr then Inr (arr ! i) else Inl IndexError)"

text \<open>Python's slice \<open>xs[:k]\<close>: a negative \<open>k\<close> counts from the end, and the slice is clamped.\<close>

definition slice_to :: "int \<Rightarrow> 'a list \<Rightarrow> 'a list" where
  "slice_to k xs = (if 0 \<le> k then take (nat k) xs else take (length xs - nat (- k)) xs)"

text \<open>
  \<open>frame.reshape(-1, 5, 3)\<close>: the elements in row-major order, regrouped in beads of 3 and
  frames of 5 beads; it raises when the number of elements is not a multiple of 15.
\<close>

function chunks :: "nat \<Rightarrow> 'a list \<Rightarrow> 'a list list" where
  "chunks n xs = (if n = 0 \<or> xs = [] then [] else take n xs # chunks n (drop n xs))"
  by pat_completeness auto
termination
  by (relation "measure (\<lambda>(n, xs). length xs)") auto

declare chunks.simps [simp del]

definition reshape_m1_5_3 :: "frame \<Rightarrow> py_error + frame list" where
  "reshape_m1_5_3 f =
     (let flat = concat f
      in if length flat mod 15 = 0 then Inr (chunks 5 (chunks 3 flat)) else Inl ValueError)"

section \<open>Embeddings\<close>

text \<open>\<open>embeddings = np.tile([6, 7, 6, 6, 7], [coords.shape[0], 1])\<close>, and \<open>n_embeddings = 10\<close>.\<close>

definition embeddings :: "frame list \<Rightarrow> int list list" where
  "embeddings coords = np_tile [6, 7, 6, 6, 7] (length coords) 1"

definition n_embeddings :: int where
  "n_embeddings = 10"

section \<open>Initial coordinates of the simulation\<close>

text \<open>
  \<open>initial_coords = np.concatenate([coords[i].reshape(-1, 5, 3)
       for i in np.arange(0, coords.shape[0], coords.shape[0] // n_sims)], axis=0)\<close>
  and \<open>sim_embeddings = embeddings[:n_sims]\<close>.
\<close>

definition initial_coords :: "frame list \<Rightarrow> nat \<Rightarrow> py_error + frame list" where
  "initial_coords coords n_sims =
     ebind (py_floordiv (length coords) n_sims) (\<lambda>step.
     ebind (np_arange 0 (length coords) step) (\<lambda>idx.
     ebind (emap (\<lambda>i. ebind (getitem coords i) reshape_m1_5_3) idx) (\<lambda>parts.
     Inr (concat parts))))"

definition sim_embeddings :: "frame list \<Rightarrow> nat \<Rightarrow> int list list" where
  "sim_embeddings coords n_sims = slice_to (int n_sims) (embeddings coords)"

section \<open>The variable-length dataset\<close>

text \<open>
  numpy's global random number generator. Its state \<open>'g\<close>, its seeding and its raw draws are
  numpy's own and stay parameters; \<open>np.random.seed(s)\<close> replaces the state by the seeded one,
  and \<open>np.random.randint(low, high, size)\<close> draws \<open>size\<close> integers of the half-open range
  \<open>[low, high)\<close>, raising when the range is empty.
\<close>

record 'g bitgen =
  bg_seed :: "nat \<Rightarrow> 'g"
  bg_next :: "'g \<Rightarrow> nat \<times> 'g"

definition np_random_seed :: "'g bitgen \<Rightarrow> nat \<Rightarrow> 'g \<Rightarrow> 'g" where
  "np_random_seed G s st = bg_seed G s"

fun raw_draws :: "'g bitgen \<Rightarrow> nat \<Rightarrow> 'g \<Rightarrow> nat list \<times> 'g" where
  "raw_draws G 0 st = ([], st)"
| "raw_draws G (Suc n) st =
     (let (r, st') = bg_next G st; (rs, st'') = raw_draws G n st' in (r # rs, st''))"

definition np_random_randint ::
  "'g bitgen \<Rightarrow> int \<Rightarrow> int \<Rightarrow> nat \<Rightarrow> 'g \<Rightarrow> py_error + (int list \<times> 'g)" where
  "np_random_randint G low high n st =
     (if high \<le> low then Inl ValueError
      else let (rs, st') = raw_draws G n st
           in Inr (map (\<lambda>r. low + int r mod (high - low)) rs, st'))"

text \<open>\<open>np.load(path)\<close> on a file system that maps a path to the array stored there.\<close>

definition np_load :: "(string \<Rightarrow> frame list option) \<Rightarrow> string \<Rightarrow> py_error + frame list" where
  "np_load files path = (case files path of None \<Rightarrow> Inl FileNotFoundError | Some a \<Rightarrow> Inr a)"

text \<open>
  The cell that builds the dataset:
  \<^verbatim>\<open>
  random_lengths = np.random.randint(2, high=6, size=len(coords))
  varied_coords = []; varied_forces = []; varied_embeddings = []
  for num, length in enumerate(random_lengths):
      varied_coords.append(coords[num, :length, :])
      varied_forces.append(forces[num, :length, :])
      varied_embeddings.append(embeddings[num, :length])
  \<close>
\<close>

record varied =
  random_lengths :: "int list"
  varied_coords :: "frame list"
  varied_forces :: "frame list"
  varied_embeddings :: "int list list"

fun vary ::
  "frame list \<Rightarrow> frame list \<Rightarrow> int list list \<Rightarrow> (nat \<times> int) list \<Rightarrow> varied \<Rightarrow>
   py_error + varied" where
  "vary coords forces emb [] acc = Inr acc"
| "vary coords forces emb ((num, len) # rest) acc =
     ebind (getitem coords num) (\<lambda>c.
     ebind (getitem forces num) (\<lambda>f.
     ebind (getitem emb num) (\<lambda>e.
     vary coords forces emb rest
       (acc\<lparr>varied_coords := varied_coords acc @ [slice_to len c],
            varied_forces := varied_forces acc @ [slice_to len f],
            varied_embeddings := varied_embeddings acc @ [slice_to len e]\<rparr>))))"

text \<open>
  The variable-size notebook from its first cell to that one: the generator is seeded with
  1133, the two arrays are loaded, the embeddings tiled, and the dataset is built. \<open>st0\<close> is
  the state of the generator when the notebook starts.
\<close>

definition variable_dataset ::
  "'g bitgen \<Rightarrow> (string \<Rightarrow> frame list option) \<Rightarrow> 'g \<Rightarrow> py_error + varied" where
  "variable_dataset G files st0 =
     (let st1 = np_random_seed G 1133 st0 in
      ebind (np_load files ''./data/ala2_coordinates.npy'') (\<lambda>coords.
      ebind (np_load files ''./data/ala2_forces.npy'') (\<lambda>forces.
      let emb = embeddings coords in
      ebind (np_random_randint G 2 6 (length coords) st1) (\<lambda>(rl, st2).
      vary coords forces emb (enumerate 0 rl)
        \<lparr>random_lengths = rl, varied_coords = [], varied_forces = [],
         varied_embeddings = []\<rparr>))))"

text \<open>A small congruential generator, to run the definitions on.\<close>

definition lcg :: "nat bitgen" where
  "lcg = \<lparr>bg_seed = (\<lambda>s. s mod 97), bg_next = (\<lambda>g. (g, (5 * g + 3) mod 97))\<rparr>"

text \<open>A frame of 5 beads in 3 dimensions and a file system holding three such frames.\<close>

definition demo_frame :: frame where
  "demo_frame = [[1, 2, 3], [4, 5, 6], [7, 8, 9], [10, 11, 12], [13, 14, 15]]"

definition demo_files :: "string \<Rightarrow> frame list option" where
  "demo_files =
     (\<lambda>p. if p = ''./data/ala2_coordinates.npy'' then Some [demo_frame, demo_frame, demo_frame]
          else if p = ''./data/ala2_forces.npy'' then Some [demo_frame, demo_frame, demo_frame]
          else None)"

section \<open>The free energies of \<open>plot_ramachandran\<close>\<close>

text \<open>
  A numpy float is a finite number, an infinity or nan; the finite ones are idealised as reals.
  The operations are those \<open>plot_ramachandran\<close> applies to its arrays, elementwise.
\<close>

datatype npfloat = Fin real | PInf | MInf | NaN

text \<open>\<open>a / b\<close> on finite floats: numpy warns on a zero divisor and returns an infinity or nan.\<close>

definition np_divide :: "real \<Rightarrow> real \<Rightarrow> npfloat" where
  "np_divide a b =
     (if b \<noteq> 0 then Fin (a / b) else if a = 0 then NaN else if 0 < a then PInf else MInf)"

text \<open>\<open>x > 0\<close>: every comparison with nan is false.\<close>

fun np_greater0 :: "npfloat \<Rightarrow> bool" where
  "np_greater0 (Fin x) = (0 < x)"
| "np_greater0 PInf = True"
| "np_greater0 MInf = False"
| "np_greater0 NaN = False"

text \<open>
  \<open>np.log(x)\<close>: minus infinity at zero (numpy signals a division by zero) and nan on a
  negative number (an invalid value).
\<close>

fun np_log :: "npfloat \<Rightarrow> npfloat" where
  "np_log (Fin x) = (if 0 < x then Fin (ln x) else if x = 0 then MInf else NaN)"
| "np_log PInf = PInf"
| "np_log MInf = NaN"
| "np_log NaN = NaN"

text \<open>\<open>r * x\<close> for a finite factor \<open>r\<close>.\<close>

fun np_scale :: "real \<Rightarrow> npfloat \<Rightarrow> npfloat" where
  "np_scale r (Fin x) = Fin (r * x)"
| "np_scale r PInf = (if 0 < r then PInf else if r < 0 then MInf else NaN)"
| "np_scale r MInf = (if 0 < r then MInf else if r < 0 then PInf else NaN)"
| "np_scale r NaN = NaN"

text \<open>\<open>x - y\<close> and \<open>x + r\<close> for a finite \<open>r\<close>.\<close>

fun np_subtract :: "npfloat \<Rightarrow> npfloat \<Rightarrow> npfloat" where
  "np_subtract (Fin x) (Fin y) = Fin (x - y)"
| "np_subtract NaN _ = NaN"
| "np_subtract _ NaN = NaN"
| "np_subtract PInf PInf = NaN"
| "np_subtract MInf MInf = NaN"
| "np_subtract PInf _ = PInf"
| "np_subtract MInf _ = MInf"
| "np_subtract (Fin x) PInf = MInf"
| "np_subtract (Fin x) MInf = PInf"

fun np_add_const :: "npfloat \<Rightarrow> real \<Rightarrow> npfloat" where
  "np_add_const (Fin x) r = Fin (x + r)"
| "np_add_const v r = v"

text \<open>Truth of an element, as \<open>np.where\<close> and \<open>np.nonzero\<close> read it: every value but zero.\<close>

definition np_truthy :: "npfloat \<Rightarrow> bool" where
  "np_truthy v = (v \<noteq> Fin 0)"

text \<open>The smaller of two floats, as \<open>np.min\<close> folds them: nan wins.\<close>

fun np_minimum :: "npfloat \<Rightarrow> npfloat \<Rightarrow> npfloat" where
  "np_minimum NaN _ = NaN"
| "np_minimum _ NaN = NaN"
| "np_minimum MInf _ = MInf"
| "np_minimum _ MInf = MInf"
| "np_minimum PInf v = v"
| "np_minimum v PInf = v"
| "np_minimum (Fin x) (Fin y) = Fin (min x y)"

text \<open>\<open>np.min\<close> of a one-dimensional selection; on an empty one it raises ValueError.\<close>

definition np_min :: "npfloat list \<Rightarrow> py_error + npfloat" where
  "np_min vs = (case vs of [] \<Rightarrow> Inl ValueError | v # rest \<Rightarrow> Inr (fold np_minimum rest v))"

text \<open>
  The numeric part of \<open>plot_ramachandran\<close>, from the histogram \<open>counts\<close> that
  \<open>np.histogram2d\<close> returns to the array handed to \<open>plt.imshow\<close> and its mask:
  \<^verbatim>\<open>
  populations = counts / np.sum(counts)
  energies = -0.6*np.log(populations, out=np.zeros_like(populations),
                         where=(populations > 0))
  energies = np.where(energies,
                      energies-np.min(energies[np.nonzero(energies)]) + 1e-6, 0)
  zvals_masked = np.ma.masked_where(energies == 0, energies)
  \<close>
  \<open>np.where\<close> evaluates both of its branches before it selects, so \<open>np.min\<close> is always called.
\<close>

definition populations :: "nat list list \<Rightarrow> npfloat list list" where
  "populations counts =
     (let n = sum_list (concat counts)
      in map (map (\<lambda>c. np_divide (real c) (real n))) counts)"

definition np_log_where :: "npfloat \<Rightarrow> npfloat" where
  "np_log_where p = (if np_greater0 p then np_log p else Fin 0)"

definition raw_energies :: "nat list list \<Rightarrow> npfloat list list" where
  "raw_energies counts = map (map (\<lambda>p. np_scale (- 0.6) (np_log_where p))) (populations counts)"

text \<open>For comparison: the energies \<open>-0.6*np.log(populations)\<close> without the mask.\<close>

definition unguarded_energies :: "nat list list \<Rightarrow> npfloat list list" where
  "unguarded_energies counts = map (map (\<lambda>p. np_scale (- 0.6) (np_log p))) (populations counts)"

definition shift_energies :: "npfloat list list \<Rightarrow> py_error + npfloat list list" where
  "shift_energies energies =
     ebind (np_min (filter np_truthy (concat energies))) (\<lambda>m.
     Inr (map (map (\<lambda>e. if np_truthy e then np_add_const (np_subtract e m) (1 / 10 ^ 6)
                         else Fin 0)) energies))"

definition plot_ramachandran_energies :: "nat list list \<Rightarrow> py_error + npfloat list list" where
  "plot_ramachandran_energies counts = shift_energies (raw_energies counts)"

definition masked_where_zero :: "npfloat list list \<Rightarrow> bool list list" where
  "masked_where_zero energies = map (map (\<lambda>e. e = Fin 0)) energies"

text \<open>
  What the comments of \<open>plot_ramachandran\<close> describe, to compare the code with: the free energy
  \<open>-(1/\<beta>) ln p\<close> of a bin of population \<open>p = c / n\<close>, with \<open>1/\<beta>\<close> taken as 0.6 kcal/mol, and
  zero for an empty bin.
\<close>

definition free_energy :: "nat \<Rightarrow> nat \<Rightarrow> real" where
  "free_energy n c = (if 0 < c \<and> 0 < n then - 0.6 * ln (real c / real n) else 0)"

section \<open>The notebooks as sequences of library calls\<close>

text \<open>
  Apart from the computations above, a notebook is a sequence of calls into numpy, torch,
  cgnet, mdtraj and matplotlib. A run is modelled by the calls it makes, in the order of the
  cells, for a run in which every library call returns (printing is left out). The calls of
  the training loops and the calls that read or write a file carry their arguments; the
  others are named. The tensors handed to the calls of the training loop are named by the
  batch they come from.
\<close>

text \<open>
  A network is built with its criterion, \<open>CGnet(layers, ForceLoss(), ...)\<close>; the notebooks use
  no other criterion than \<open>ForceLoss\<close>.
\<close>

datatype loss_fn = ForceLoss

record cgnet =
  criterion :: loss_fn

datatype tensor =
    BatchCoord nat nat
  | BatchForce nat nat
  | BatchEmbedding nat nat
  | PredForce tensor tensor
  | Loss loss_fn tensor tensor

datatype call =
    Lib string
  | NpLoad string
  | TorchSave string
  | Plt string
  | ZeroGrad
  | Forward tensor tensor
  | Criterion loss_fn tensor tensor
  | Backward tensor
  | OptimizerStep
  | LipschitzProjection real
  | SchedulerStep
  | DatasetLoss cgnet bool "call option"

text \<open>
  \<open>BatchCoord epoch num\<close>, \<open>BatchForce epoch num\<close> and \<open>BatchEmbedding epoch num\<close> are the three
  parts of the batch that the loader yields as number \<open>num\<close> in epoch \<open>epoch\<close>.
  \<open>PredForce coord emb\<close> is the force returned by \<open>net.forward(coord, embedding_property=emb)\<close>.
  \<open>Criterion l pred force\<close> is the call \<open>net.criterion(pred, force)\<close> of a network whose
  criterion is \<open>l\<close>, and \<open>Loss l pred force\<close> the loss it returns.
  \<open>DatasetLoss model opt reg\<close> is the call
  \<open>dataset_loss(model, loader, optimizer, regularization_function=reg, ...)\<close>: \<open>opt\<close> tells
  whether an optimizer is passed, \<open>reg\<close> is the regularization function passed, if any.
\<close>

text \<open>
  \<open>ala2_net = CGnet(layers, ForceLoss(), feature=feature_combiner, priors=priors)\<close> in the
  notebook on SchNet embeddings, and
  \<open>variable_model = CGnet(layers, ForceLoss(), feature=schnet_feature, priors=None)\<close> in the
  variable-size notebook.
\<close>

definition ala2_net :: cgnet where
  "ala2_net = \<lparr>criterion = ForceLoss\<rparr>"

definition variable_model :: cgnet where
  "variable_model = \<lparr>criterion = ForceLoss\<rparr>"

text \<open>The variables of the hyperparameter cells that decide what a run calls.\<close>

record settings =
  num_epochs :: nat
  save_model :: bool
  directory :: string

definition cgschnet_settings :: settings where
  "cgschnet_settings = \<lparr>num_epochs = 5, save_model = False, directory = ''.''\<rparr>"

definition variable_settings :: settings where
  "variable_settings = \<lparr>num_epochs = 15, save_model = False, directory = ''.''\<rparr>"

definition lipschitz_strength :: real where
  "lipschitz_strength = 4.0"

definition n_layers :: nat where
  "n_layers = 5"

text \<open>\<open>"{}/name".format(directory)\<close>\<close>

definition model_path :: "string \<Rightarrow> string \<Rightarrow> string" where
  "model_path dir name = dir @ ''/'' @ name"

subsection \<open>The training loop of the notebook on SchNet embeddings\<close>

text \<open>
  \<^verbatim>\<open>
  for epoch in range(1, num_epochs+1):
      train_loss = 0.00; test_loss = 0.00; n = 0
      for num, batch in enumerate(trainloader):
          optimizer.zero_grad()
          coord, force, embedding_property = batch
          energy, pred_force = ala2_net.forward(coord,
                                  embedding_property=embedding_property)
          batch_loss = ala2_net.criterion(pred_force, force)
          batch_loss.backward()
          optimizer.step()
          lipschitz_projection(ala2_net, strength=lipschitz_strength)
          train_loss += batch_loss.detach().cpu()
          n += 1
      train_loss /= n
      epochal_train_losses.append(train_loss)
      scheduler.step()
  if save_model:
      torch.save(ala2_net,"{}/ala2_cgschnet.pt".format(directory))
  \<close>
  With an empty loader \<open>train_loss\<close> is still the float 0.00 and \<open>n\<close> is 0, so the division
  raises.
\<close>

definition batch_iteration :: "nat \<Rightarrow> nat \<Rightarrow> call list" where
  "batch_iteration epoch num =
     (let coord = BatchCoord epoch num; force = BatchForce epoch num;
          embedding_property = BatchEmbedding epoch num;
          pred_force = PredForce coord embedding_property;
          batch_loss = Loss (criterion ala2_net) pred_force force
      in [ZeroGrad, Forward coord embedding_property,
          Criterion (criterion ala2_net) pred_force force,
          Backward batch_loss, OptimizerStep, LipschitzProjection lipschitz_strength])"

definition epoch_iterations :: "nat \<Rightarrow> nat \<Rightarrow> call list list" where
  "epoch_iterations n_batches epoch = map (batch_iteration epoch) [0..<n_batches]"

definition train_epoch :: "nat \<Rightarrow> nat \<Rightarrow> py_error + call list" where
  "train_epoch n_batches epoch =
     (if n_batches = 0 then Inl ZeroDivisionError
      else Inr (concat (epoch_iterations n_batches epoch) @ [SchedulerStep]))"

definition cgschnet_training :: "settings \<Rightarrow> nat \<Rightarrow> py_error + call list" where
  "cgschnet_training s n_batches =
     ebind (emap (train_epoch n_batches) [1..<num_epochs s + 1]) (\<lambda>epochs.
     Inr (concat epochs @
          (if save_model s then [TorchSave (model_path (directory s) ''ala2_cgschnet.pt'')]
           else [])))"

text \<open>The calls of the epochs of that loop when the loader is not empty.\<close>

definition cgschnet_epochs :: "settings \<Rightarrow> nat \<Rightarrow> call list" where
  "cgschnet_epochs s n_batches =
     concat (map (\<lambda>epoch. concat (epoch_iterations n_batches epoch) @ [SchedulerStep])
               [1..<num_epochs s + 1])"

subsection \<open>The training loop of the notebook on variable-sized data\<close>

text \<open>
  \<^verbatim>\<open>
  for epoch in range(1, num_epochs+1):
      train_loss = dataset_loss(variable_model, loader,
                                optimizer,
                                verbose_interval=batch_freq)
      scheduler.step()
      epochal_train_losses.append(train_loss)
  if save_model:
      torch.save(variable_model, "{}/variable_model.pt".format(directory))
  \<close>
\<close>

definition variable_epoch :: "nat \<Rightarrow> call list" where
  "variable_epoch epoch = [DatasetLoss variable_model True None, SchedulerStep]"

definition variable_iterations :: "settings \<Rightarrow> call list list" where
  "variable_iterations s = map variable_epoch [1..<num_epochs s + 1]"

definition variable_training :: "settings \<Rightarrow> call list" where
  "variable_training s =
     concat (variable_iterations s) @
     (if save_model s then [TorchSave (model_path (directory s) ''variable_model.pt'')] else [])"

subsection \<open>The cells around the training loops\<close>

definition plot_ramachandran_calls :: "call list" where
  "plot_ramachandran_calls =
     [Lib ''np.array'', Lib ''np.histogram2d'', Lib ''np.sum'', Lib ''np.zeros_like'',
      Lib ''np.log'', Lib ''np.nonzero'', Lib ''np.min'', Lib ''np.where'',
      Lib ''np.ma.masked_where'', Plt ''set_bad'', Plt ''imshow'', Plt ''gca'', Plt ''xticks'',
      Plt ''yticks'', Plt ''xlabel'', Plt ''ylabel'', Plt ''colorbar'']"

definition scatter_calls :: "call list" where
  "scatter_calls =
     [Plt ''get_cmap'', Plt ''scatter'', Plt ''xlabel'', Plt ''ylabel'', Plt ''xlim'',
      Plt ''ylim'', Plt ''title'', Plt ''colorbar'']"

definition linear_layers :: "call list" where
  "linear_layers = Lib ''LinearLayer'' # replicate (n_layers - 1) (Lib ''LinearLayer'') @
                   [Lib ''LinearLayer'']"

definition cgschnet_before_training :: "call list" where
  "cgschnet_before_training =
     [Lib ''torch.device'',
      NpLoad ''./data/ala2_coordinates.npy'', NpLoad ''./data/ala2_forces.npy'',
      Lib ''np.tile'',
      Lib ''MoleculeDataset'',
      Lib ''GeometryStatistics'', Lib ''get_prior_statistics'', Lib ''return_indices'',
      Lib ''get_prior_statistics'', Lib ''return_indices'',
      Lib ''GeometryFeature'',
      Lib ''ShiftedSoftplus'',
      Lib ''CGBeadEmbedding'', Lib ''GaussianRBF'', Lib ''SchnetFeature'',
      Lib ''return_indices'', Lib ''FeatureCombiner''] @
     linear_layers @
     [Lib ''HarmonicLayer'', Lib ''HarmonicLayer'',
      Lib ''ForceLoss'', Lib ''CGnet'',
      Lib ''RandomSampler'', Lib ''DataLoader'', Lib ''Adam'', Lib ''MultiStepLR'']"

definition cgschnet_after_training :: "call list" where
  "cgschnet_after_training =
     [Plt ''figure'', Lib ''np.arange'', Plt ''plot'', Plt ''legend'', Plt ''xlabel'',
      Lib ''np.arange'', Plt ''xticks'', Plt ''ylabel'', Plt ''show'',
      Lib ''np.arange'', Lib ''np.concatenate'', Lib ''torch.tensor'', Lib ''torch.tensor'',
      Lib ''CGnet.eval'', Lib ''Simulation'', Lib ''Simulation.simulate'',
      Lib ''CGMolecule'', Lib ''make_trajectory'', Lib ''np.concatenate'',
      Lib ''make_trajectory'', Lib ''md.compute_phi'', Lib ''md.compute_psi'',
      Lib ''md.compute_phi'', Lib ''md.compute_psi'', Lib ''torch.tensor'',
      Lib ''torch.tensor'', Lib ''CGnet.forward'', Lib ''np.min'', Lib ''np.concatenate'',
      Lib ''np.min'',
      Plt ''subplots'', Plt ''subplot''] @ scatter_calls @ [Plt ''subplot''] @ scatter_calls @
     [Plt ''tight_layout'',
      Plt ''subplots'', Plt ''subplot''] @ plot_ramachandran_calls @
     [Plt ''title'', Plt ''subplot''] @ plot_ramachandran_calls @
     [Plt ''title'', Plt ''tight_layout'']"

definition cgschnet_notebook :: "settings \<Rightarrow> nat \<Rightarrow> py_error + call list" where
  "cgschnet_notebook s n_batches =
     ebind (cgschnet_training s n_batches) (\<lambda>training.
     Inr (cgschnet_before_training @ training @ cgschnet_after_training))"

definition variable_before_training :: "call list" where
  "variable_before_training =
     [Lib ''torch.device'', Lib ''np.random.seed'',
      NpLoad ''./data/ala2_coordinates.npy'', NpLoad ''./data/ala2_forces.npy'',
      Lib ''np.tile'',
      Lib ''np.random.randint'',
      Lib ''MultiMoleculeDataset'',
      Lib ''MultiMoleculeDataset.__getitem__'', Lib ''MultiMoleculeDataset.__getitem__'',
      Lib ''MultiMoleculeDataset.__getitem__'',
      Lib ''DataLoader'',
      Lib ''nn.Tanh'',
      Lib ''CGBeadEmbedding'',
      Lib ''GaussianRBF'', Lib ''SchnetFeature''] @
     linear_layers @
     [Lib ''ForceLoss'', Lib ''CGnet'',
      Lib ''DataLoader'', Lib ''Adam'', Lib ''MultiStepLR'']"

definition variable_after_training :: "call list" where
  "variable_after_training =
     [Plt ''figure'', Lib ''np.arange'', Plt ''plot'', Plt ''legend'', Plt ''xlabel'',
      Plt ''ylabel'', Plt ''show'',
      NpLoad ''./data/ala2_coordinates.npy'', NpLoad ''./data/ala2_forces.npy'',
      Lib ''np.tile'',
      Lib ''np.arange'', Lib ''np.concatenate'', Lib ''torch.tensor'', Lib ''torch.tensor'',
      Lib ''CGnet.eval'', Lib ''Simulation'', Lib ''Simulation.simulate'',
      Lib ''CGMolecule'', Lib ''make_trajectory'', Lib ''np.concatenate'',
      Lib ''make_trajectory'', Lib ''np.vstack'', Lib ''md.compute_dihedrals'',
      Lib ''np.vstack'', Lib ''md.compute_dihedrals'', Lib ''torch.tensor'',
      Lib ''torch.tensor'', Lib ''CGnet.forward'', Lib ''np.min'', Lib ''np.concatenate'',
      Lib ''np.min'',
      Plt ''subplots'', Plt ''subplot''] @ scatter_calls @ [Plt ''subplot''] @ scatter_calls @
     [Plt ''tight_layout'',
      Plt ''subplots'', Plt ''subplot''] @ plot_ramachandran_calls @
     [Plt ''title'', Plt ''subplot''] @ plot_ramachandran_calls @
     [Plt ''title'', Plt ''tight_layout'']"

definition variable_notebook :: "settings \<Rightarrow> call list" where
  "variable_notebook s = variable_before_training @ variable_training s @ variable_after_training"

subsection \<open>What is read off a run\<close>

text \<open>The phases of the pipeline the specification names, and the phase a call belongs to.\<close>

datatype phase =
  DataLoad | DatasetConstruction | ModelConstruction | Training | Simulation | Plotting

definition pipeline :: "phase list" where
  "pipeline = [DataLoad, DatasetConstruction, ModelConstruction, Training, Simulation, Plotting]"

fun phase_of :: "call \<Rightarrow> phase option" where
  "phase_of (NpLoad p) = Some DataLoad"
| "phase_of (Lib n) =
     (if n \<in> set [''np.random.randint'', ''MoleculeDataset'', ''MultiMoleculeDataset'']
        then Some DatasetConstruction
      else if n \<in> set [''GeometryFeature'', ''CGBeadEmbedding'', ''GaussianRBF'',
                ''SchnetFeature'', ''FeatureCombiner'', ''LinearLayer'', ''HarmonicLayer'',
                ''ForceLoss'', ''CGnet'']
        then Some ModelConstruction
      else if n \<in> set [''Simulation'', ''Simulation.simulate''] then Some Simulation
      else None)"
| "phase_of (Plt n) = Some Plotting"
| "phase_of (TorchSave p) = None"
| "phase_of c = Some Training"

text \<open>The phases of a run in the order in which it enters them.\<close>

definition phases :: "call list \<Rightarrow> phase list" where
  "phases run = remdups_adj (List.map_filter phase_of run)"

definition run_phases :: "py_error + call list \<Rightarrow> phase list option" where
  "run_phases r = (case r of Inl e \<Rightarrow> None | Inr run \<Rightarrow> Some (phases run))"

text \<open>The files a run reads and the files it writes.\<close>

definition files_read :: "call list \<Rightarrow> string list" where
  "files_read run = concat (map (\<lambda>c. case c of NpLoad p \<Rightarrow> [p] | _ \<Rightarrow> []) run)"

definition files_written :: "call list \<Rightarrow> string list" where
  "files_written run = concat (map (\<lambda>c. case c of TorchSave p \<Rightarrow> [p] | _ \<Rightarrow> []) run)"

definition run_files_written :: "py_error + call list \<Rightarrow> string list option" where
  "run_files_written r = (case r of Inl e \<Rightarrow> None | Inr run \<Rightarrow> Some (files_written run))"

text \<open>
  A call that projects the model: a call of \<open>lipschitz_projection\<close>, or a call of
  \<open>dataset_loss\<close> that is handed one as its regularization function.
\<close>

definition applies_projection :: "call \<Rightarrow> bool" where
  "applies_projection c =
     (case c of LipschitzProjection r \<Rightarrow> True
      | DatasetLoss model opt reg \<Rightarrow>
          (case reg of Some (LipschitzProjection r) \<Rightarrow> True | _ \<Rightarrow> False)
      | _ \<Rightarrow> False)"

section \<open>Properties of the embeddings\<close>

lemma embeddings_rows: "row \<in> set (embeddings coords) \<Longrightarrow> row = [6, 7, 6, 6, 7]"
  by (auto simp: embeddings_def np_tile_def)

lemma length_embeddings: "length (embeddings coords) = length coords"
  by (simp add: embeddings_def np_tile_def)

text \<open>
  C7: every per-frame embedding vector is exactly (6, 7, 6, 6, 7), there is one per frame, and
  every embedding value is an integer strictly between the padding value 0 and
  \<open>n_embeddings = 10\<close>.
\<close>

theorem embeddings_codes:
  "length (embeddings coords) = length coords \<and>
   (\<forall>row \<in> set (embeddings coords).
      row = [6, 7, 6, 6, 7] \<and> (\<forall>v \<in> set row. 0 < v \<and> v < n_embeddings))"
proof -
  have "\<forall>v \<in> set [6, 7, 6, 6, 7 :: int]. 0 < v \<and> v < n_embeddings"
    by (simp add: n_embeddings_def)
  then show ?thesis
    using embeddings_rows length_embeddings by blast
qed

theorem embeddings_codes_witness:
  "embeddings [[], []] = [[6, 7, 6, 6, 7], [6, 7, 6, 6, 7]] \<and>
   [6, 7, 6, 6, 7] \<in> set (embeddings [[], []]) \<and>
   (0::int) < 6 \<and> 6 < n_embeddings \<and> (0::int) < 7 \<and> 7 < n_embeddings"
proof -
  have e: "embeddings [[], []] = [[6, 7, 6, 6, 7], [6, 7, 6, 6, 7]]"
    by (simp add: embeddings_def np_tile_def numeral_2_eq_2)
  then have m: "[6, 7, 6, 6, 7] \<in> set (embeddings [[], []])"
    by simp
  from embeddings_codes [of "[[], []]"] m
  have "\<forall>v \<in> set [6, 7, 6, 6, 7 :: int]. 0 < v \<and> v < n_embeddings"
    by blast
  then have "(0::int) < 6 \<and> 6 < n_embeddings \<and> (0::int) < 7 \<and> 7 < n_embeddings"
    by simp
  with e m show ?thesis by blast
qed

section \<open>Properties of the initial coordinates\<close>

lemma arange_step:
  assumes "0 < step" "i < stop"
  shows "Suc ((stop - (i + step) + step - 1) div step) = (stop - i + step - 1) div step"
proof -
  have r: "(stop - i + step - 1) div step = Suc ((stop - i - 1) div step)"
  proof -
    have e: "stop - i + step - 1 = (stop - i - 1) + step" using assms by arith
    have "((stop - i - 1) + step) div step = Suc ((stop - i - 1) div step)"
      using assms(1) by simp
    then show ?thesis by (simp only: e)
  qed
  have l: "(stop - (i + step) + step - 1) div step = (stop - i - 1) div step"
  proof (cases "i + step \<le> stop")
    case True
    then have "stop - (i + step) + step - 1 = stop - i - 1" by arith
    then show ?thesis by simp
  next
    case False
    then have "stop - (i + step) + step - 1 < step" "stop - i - 1 < step" using assms by arith+
    then show ?thesis by simp
  qed
  show ?thesis using l r by simp
qed

lemma length_arange_from:
  "0 < step \<Longrightarrow> length (arange_from i stop step) = (stop - i + step - 1) div step"
proof (induction i stop step rule: arange_from.induct)
  case (1 i stop step)
  show ?case
  proof (cases "i < stop")
    case True
    then have "length (arange_from i stop step) = Suc (length (arange_from (i + step) stop step))"
      using "1.prems" by (subst arange_from.simps) simp
    also have "\<dots> = Suc ((stop - (i + step) + step - 1) div step)"
      using "1.IH" "1.prems" True by simp
    also have "\<dots> = (stop - i + step - 1) div step"
      using arange_step [OF "1.prems" True] .
    finally show ?thesis .
  next
    case False
    then show ?thesis using "1.prems" by (subst arange_from.simps) simp
  qed
qed

lemma set_arange_from: "x \<in> set (arange_from i stop step) \<Longrightarrow> x < stop"
proof (induction i stop step rule: arange_from.induct)
  case (1 i stop step)
  from "1.prems" have c: "0 < step \<and> i < stop"
    by (subst (asm) arange_from.simps) (simp split: if_splits)
  with "1.prems" have "x = i \<or> x \<in> set (arange_from (i + step) stop step)"
    by (subst (asm) arange_from.simps) simp
  with c "1.IH" show ?case by auto
qed

lemma ceiling_nat_div:
  assumes "0 < q"
  shows "\<lceil>real N / real q\<rceil> = int ((N + q - 1) div q)"
proof -
  define z where "z = (N + q - 1) div q"
  define r where "r = (N + q - 1) mod q"
  have "q * z + r = N + q - 1" by (simp add: z_def r_def)
  moreover have "r < q" using assms by (simp add: r_def)
  ultimately have b: "N \<le> q * z" "q * z < N + q" by arith+
  have "real N \<le> real (q * z)" using b(1) by (rule of_nat_mono)
  then have u: "real N / real q \<le> real z"
    using assms by (simp add: pos_divide_le_eq mult.commute)
  have "real (q * z) < real (N + q)" using b(2) by (simp only: of_nat_less_iff)
  then have "(real z - 1) * real q < real N"
    by (simp add: algebra_simps)
  then have l: "real z - 1 < real N / real q"
    using assms by (simp add: pos_less_divide_eq)
  show ?thesis
    unfolding z_def [symmetric] using u l by (intro ceiling_unique) simp_all
qed

lemma chunks_concat_beads:
  "list_all (\<lambda>p. length p = d) f \<Longrightarrow> 0 < d \<Longrightarrow> chunks d (concat f) = f"
proof (induction f)
  case Nil
  show ?case by (subst chunks.simps) simp
next
  case (Cons p f)
  then have "p \<noteq> []" "length p = d" by auto
  then show ?case using Cons by (subst chunks.simps) simp
qed

lemma chunks_single: "0 < n \<Longrightarrow> length xs = n \<Longrightarrow> chunks n xs = [xs]"
  by (subst chunks.simps, subst chunks.simps) auto

lemma length_concat_beads:
  "list_all (\<lambda>p. length p = d) f \<Longrightarrow> length (concat f) = d * length f"
  by (induction f) auto

lemma reshape_frame:
  assumes "length f = 5" "list_all (\<lambda>p. length p = 3) f"
  shows "reshape_m1_5_3 f = Inr [f]"
proof -
  have c: "chunks 3 (concat f) = f" using assms(2) by (simp add: chunks_concat_beads)
  have "length (concat f) = 15"
    using assms by (simp add: length_concat_beads)
  then show ?thesis using c assms(1) by (simp add: reshape_m1_5_3_def chunks_single)
qed


lemma emap_Inr:
  "(\<And>x. x \<in> set xs \<Longrightarrow> f x = Inr (g x)) \<Longrightarrow> emap f xs = Inr (map g xs)"
  by (induction xs) auto

lemma initial_coords_frames:
  assumes "0 < n_sims" "n_sims \<le> N" "has_shape coords N 5 3"
  shows "initial_coords coords n_sims =
           Inr (map (\<lambda>i. coords ! i) (arange_from 0 N (N div n_sims)))"
proof -
  have len: "length coords = N" using assms(3) by (simp add: has_shape_def)
  have step: "0 < N div n_sims" using assms(1,2) by (simp add: div_greater_zero_iff)
  have fr: "ebind (getitem coords i) reshape_m1_5_3 = Inr [coords ! i]"
    if "i \<in> set (arange_from 0 N (N div n_sims))" for i
  proof -
    have "i < N" using that by (rule set_arange_from)
    then have "coords ! i \<in> set coords" using len by simp
    then have "length (coords ! i) = 5 \<and> list_all (\<lambda>p. length p = 3) (coords ! i)"
      using assms(3) by (simp add: has_shape_def frame_shape_def list_all_iff)
    then have "reshape_m1_5_3 (coords ! i) = Inr [coords ! i]"
      by (simp add: reshape_frame)
    then show ?thesis using \<open>i < N\<close> len by (simp add: getitem_def ebind_def)
  qed
  have "emap (\<lambda>i. ebind (getitem coords i) reshape_m1_5_3) (arange_from 0 N (N div n_sims)) =
          Inr (map (\<lambda>i. [coords ! i]) (arange_from 0 N (N div n_sims)))"
    using fr by (rule emap_Inr)
  moreover have "concat (map (\<lambda>i. [coords ! i]) xs) = map (\<lambda>i. coords ! i) xs" for xs
    by (induction xs) auto
  ultimately show ?thesis
    using step assms(1) len
    by (simp add: initial_coords_def py_floordiv_def np_arange_def ebind_def)
qed

lemma count_bounds:
  assumes "0 < n" "n \<le> (N::nat)"
  shows "n \<le> (N + N div n - 1) div (N div n)"
    and "\<not> (N div n) dvd N \<Longrightarrow> n < (N + N div n - 1) div (N div n)"
proof -
  define q where "q = N div n"
  have q: "0 < q" using assms by (simp add: q_def div_greater_zero_iff)
  have qn: "q * n \<le> N" by (simp add: q_def)
  have "(q * n + (q - 1)) div q \<le> (N + q - 1) div q"
    using qn q by (intro div_le_mono) arith
  moreover have "(q * n + (q - 1)) div q = n"
  proof -
    have "(q * n + (q - 1)) div q = n + (q - 1) div q"
      using q by (subst div_mult_self4) simp_all
    then show ?thesis using q by simp
  qed
  ultimately show "n \<le> (N + N div n - 1) div (N div n)" by (simp add: q_def)
  assume "\<not> (N div n) dvd N"
  then have "\<not> q dvd N" by (simp add: q_def)
  then have "N \<noteq> q * n" by (metis dvd_triv_left)
  with qn have "q * n + q \<le> N + q - 1" using q by arith
  then have "(q * n + q) div q \<le> (N + q - 1) div q" by (rule div_le_mono)
  moreover have "(q * n + q) div q = n + 1" using q by simp
  ultimately show "n < (N + N div n - 1) div (N div n)" by (simp add: q_def)
qed

lemma length_sim_embeddings:
  "n_sims \<le> length coords \<Longrightarrow> length (sim_embeddings coords n_sims) = n_sims"
  by (simp add: sim_embeddings_def slice_to_def length_embeddings)

text \<open>
  C9: for a trajectory of \<open>N\<close> frames (of 5 beads in 3 dimensions) and \<open>1 \<le> n_sims \<le> N\<close>, the
  construction of the initial coordinates returns exactly \<open>ceil (N / (N // n_sims))\<close> frames;
  that count is at least \<open>n_sims\<close>, and exceeds it whenever \<open>N // n_sims\<close> does not divide
  \<open>N\<close>, while \<open>sim_embeddings\<close> has \<open>n_sims\<close> rows, so the two can differ.
\<close>

theorem initial_coords_count:
  assumes "1 \<le> n_sims" "n_sims \<le> N" "has_shape coords N 5 3"
  shows "\<exists>ic. initial_coords coords n_sims = Inr ic \<and>
          int (length ic) = \<lceil>real N / real (N div n_sims)\<rceil> \<and>
          n_sims \<le> length ic \<and>
          (\<not> (N div n_sims) dvd N \<longrightarrow>
             n_sims < length ic \<and> length ic \<noteq> length (sim_embeddings coords n_sims)) \<and>
          length (sim_embeddings coords n_sims) = n_sims"
proof -
  let ?q = "N div n_sims"
  let ?ic = "map (\<lambda>i. coords ! i) (arange_from 0 N ?q)"
  have n: "0 < n_sims" using assms(1) by simp
  have q: "0 < ?q" using n assms(2) by (simp add: div_greater_zero_iff)
  have len: "length coords = N" using assms(3) by (simp add: has_shape_def)
  have r: "initial_coords coords n_sims = Inr ?ic"
    using n assms(2,3) by (rule initial_coords_frames)
  have l: "length ?ic = (N + ?q - 1) div ?q"
    using q by (simp add: length_arange_from)
  have c: "int (length ?ic) = \<lceil>real N / real ?q\<rceil>"
    using q l by (simp add: ceiling_nat_div)
  have e: "length (sim_embeddings coords n_sims) = n_sims"
    using assms(2) len by (simp add: length_sim_embeddings)
  have lo: "n_sims \<le> length ?ic"
    using count_bounds(1) [OF n assms(2)] l by simp
  have hi: "n_sims < length ?ic" if "\<not> ?q dvd N"
    using count_bounds(2) [OF n assms(2) that] l by simp
  show ?thesis
    using r c e lo hi by (intro exI [of _ ?ic]) auto
qed

theorem initial_coords_count_witness:
  "has_shape (replicate 5 (replicate 5 [0, 0, 0])) 5 5 3 \<and>
   (\<exists>ic. initial_coords (replicate 5 (replicate 5 [0, 0, 0])) 2 = Inr ic \<and> length ic = 3) \<and>
   length (sim_embeddings (replicate 5 (replicate 5 [0, 0, 0])) 2) = 2"
proof -
  let ?C = "replicate 5 (replicate 5 [0, 0, 0 :: real])"
  have h: "has_shape ?C 5 5 3"
    by (simp add: has_shape_def frame_shape_def list_all_iff)
  have d: "\<not> ((5::nat) div 2) dvd 5" by simp
  from initial_coords_count [of 2 5 ?C] h obtain ic where
    ic: "initial_coords ?C 2 = Inr ic"
        "int (length ic) = \<lceil>real 5 / real ((5::nat) div 2)\<rceil>"
        "length (sim_embeddings ?C 2) = 2"
    by auto
  have "\<lceil>real 5 / real ((5::nat) div 2)\<rceil> = 3" by simp
  with ic(2) have "length ic = 3" by simp
  with h ic show ?thesis by blast
qed

section \<open>Properties of the variable-length dataset\<close>

lemma raw_draws_length: "length (fst (raw_draws G n st)) = n"
proof (induction n arbitrary: st)
  case 0
  show ?case by simp
next
  case (Suc n)
  obtain r st' where a: "bg_next G st = (r, st')" by (cases "bg_next G st")
  obtain rs st'' where b: "raw_draws G n st' = (rs, st'')" by (cases "raw_draws G n st'")
  from Suc [of st'] b have "length rs = n" by simp
  then show ?case using a b by simp
qed

lemma randint_2_6:
  "\<exists>rl st'. np_random_randint G 2 6 n st = Inr (rl, st') \<and> length rl = n \<and>
     list_all (\<lambda>x. 2 \<le> x \<and> x \<le> 5) rl"
proof -
  obtain rs st' where r: "raw_draws G n st = (rs, st')" by (cases "raw_draws G n st")
  then have "length rs = n" using raw_draws_length [of G n st] by simp
  moreover have "2 \<le> 2 + int r mod 4 \<and> 2 + int r mod 4 \<le> 5" for r :: nat
  proof -
    have "0 \<le> int r mod 4" "int r mod 4 < 4" by simp_all
    then show ?thesis by arith
  qed
  ultimately show ?thesis
    using r by (simp add: np_random_randint_def list_all_iff)
qed

lemma vary_result:
  assumes "list_all (\<lambda>(num, len). num < length coords \<and> num < length forces \<and> num < length emb) items"
  shows "vary coords forces emb items acc =
           Inr (acc\<lparr>varied_coords := varied_coords acc @ map (\<lambda>(num, len). slice_to len (coords ! num)) items,
                    varied_forces := varied_forces acc @ map (\<lambda>(num, len). slice_to len (forces ! num)) items,
                    varied_embeddings := varied_embeddings acc @ map (\<lambda>(num, len). slice_to len (emb ! num)) items\<rparr>)"
  using assms
proof (induction items arbitrary: acc)
  case Nil
  show ?case by simp
next
  case (Cons it items)
  obtain num len where it: "it = (num, len)" by (cases it)
  from Cons.prems it have b: "num < length coords" "num < length forces" "num < length emb"
    and r: "list_all (\<lambda>(num, len). num < length coords \<and> num < length forces \<and> num < length emb) items"
    by simp_all
  show ?case
    unfolding it using b Cons.IH [OF r] by (simp add: getitem_def ebind_def)
qed

lemma slice_frame_shape:
  assumes "frame_shape f 5 3" "2 \<le> len" "len \<le> 5"
  shows "frame_shape (slice_to len f) (nat len) 3"
proof -
  have "set (take (nat len) f) \<subseteq> set f" by (rule set_take_subset)
  then show ?thesis
    using assms by (auto simp: frame_shape_def slice_to_def list_all_iff)
qed

lemma enumerate_in_range:
  "list_all (\<lambda>(num, len). num < length rl) (enumerate 0 rl)"
  by (auto simp: list_all_iff in_set_enumerate_eq)

text \<open>
  C4: when the two loaded arrays have shape \<open>(N, 5, 3)\<close>, the construction returns, and every
  example \<open>num\<close> of the dataset has a bead count \<open>random_lengths[num]\<close> between 2 and 5; its
  truncated coordinates and forces have shape \<open>(length, 3)\<close> and its truncated embeddings
  have \<open>length\<close> entries, for that same count.
\<close>

theorem variable_dataset_shapes:
  assumes "files ''./data/ala2_coordinates.npy'' = Some coords"
    and "files ''./data/ala2_forces.npy'' = Some forces"
    and "has_shape coords N 5 3" and "has_shape forces N 5 3"
  shows "\<exists>v. variable_dataset G files st0 = Inr v \<and>
           length (random_lengths v) = N \<and> length (varied_coords v) = N \<and>
           length (varied_forces v) = N \<and> length (varied_embeddings v) = N \<and>
           (\<forall>num < N.
              2 \<le> random_lengths v ! num \<and> random_lengths v ! num \<le> 5 \<and>
              frame_shape (varied_coords v ! num) (nat (random_lengths v ! num)) 3 \<and>
              frame_shape (varied_forces v ! num) (nat (random_lengths v ! num)) 3 \<and>
              length (varied_embeddings v ! num) = nat (random_lengths v ! num))"
proof -
  let ?emb = "embeddings coords"
  have lc: "length coords = N" and lf: "length forces = N"
    using assms(3,4) by (simp_all add: has_shape_def)
  have le: "length ?emb = N" using lc by (simp add: length_embeddings)
  obtain rl st2 where
    rl: "np_random_randint G 2 6 N (np_random_seed G 1133 st0) = Inr (rl, st2)"
      "length rl = N" "list_all (\<lambda>x. 2 \<le> x \<and> x \<le> 5) rl"
    using randint_2_6 [of G N "np_random_seed G 1133 st0"] by blast
  let ?items = "enumerate 0 rl"
  let ?v = "\<lparr>random_lengths = rl,
            varied_coords = map (\<lambda>(num, len). slice_to len (coords ! num)) ?items,
            varied_forces = map (\<lambda>(num, len). slice_to len (forces ! num)) ?items,
            varied_embeddings = map (\<lambda>(num, len). slice_to len (?emb ! num)) ?items\<rparr>"
  have "list_all (\<lambda>(num, len). num < length coords \<and> num < length forces \<and> num < length ?emb) ?items"
    using enumerate_in_range [of rl] rl(2) lc lf le by simp
  then have "vary coords forces ?emb ?items
               \<lparr>random_lengths = rl, varied_coords = [], varied_forces = [],
                varied_embeddings = []\<rparr> = Inr ?v"
    by (simp add: vary_result)
  then have run: "variable_dataset G files st0 = Inr ?v"
    using assms(1,2) rl(1) lc by (simp add: variable_dataset_def np_load_def ebind_def)
  have per: "2 \<le> rl ! num \<and> rl ! num \<le> 5 \<and>
             frame_shape (varied_coords ?v ! num) (nat (rl ! num)) 3 \<and>
             frame_shape (varied_forces ?v ! num) (nat (rl ! num)) 3 \<and>
             length (varied_embeddings ?v ! num) = nat (rl ! num)" if "num < N" for num
  proof -
    have b: "2 \<le> rl ! num" "rl ! num \<le> 5"
      using rl(2,3) that by (simp_all add: list_all_length)
    have it: "?items ! num = (num, rl ! num)"
      using that rl(2) by (simp add: nth_enumerate_eq)
    have fc: "frame_shape (coords ! num) 5 3" and ff: "frame_shape (forces ! num) 5 3"
      using assms(3,4) that by (simp_all add: has_shape_def list_all_length)
    have row: "?emb ! num = [6, 7, 6, 6, 7]"
      using that le embeddings_rows [of "?emb ! num" coords] by simp
    have "length (slice_to (rl ! num) [6, 7, 6, 6, 7 :: int]) = nat (rl ! num)"
      using b by (simp add: slice_to_def)
    then show ?thesis
      using b it that rl(2) row slice_frame_shape [OF fc b] slice_frame_shape [OF ff b]
      by simp
  qed
  show ?thesis
    using run per rl(2) by (intro exI [of _ ?v]) simp
qed

theorem variable_dataset_shapes_witness:
  "demo_files ''./data/ala2_coordinates.npy'' = Some [demo_frame, demo_frame, demo_frame] \<and>
   demo_files ''./data/ala2_forces.npy'' = Some [demo_frame, demo_frame, demo_frame] \<and>
   has_shape [demo_frame, demo_frame, demo_frame] 3 5 3 \<and>
   (\<exists>v. variable_dataset lcg demo_files 0 = Inr v \<and> length (varied_coords v) = 3 \<and>
      2 \<le> random_lengths v ! 0 \<and> random_lengths v ! 0 \<le> 5 \<and>
      frame_shape (varied_coords v ! 0) (nat (random_lengths v ! 0)) 3 \<and>
      length (varied_embeddings v ! 0) = nat (random_lengths v ! 0))"
proof -
  let ?A = "[demo_frame, demo_frame, demo_frame]"
  have c: "demo_files ''./data/ala2_coordinates.npy'' = Some ?A"
    and f: "demo_files ''./data/ala2_forces.npy'' = Some ?A"
    by (simp_all add: demo_files_def)
  have h: "has_shape ?A 3 5 3"
    by (simp add: has_shape_def frame_shape_def demo_frame_def)
  from variable_dataset_shapes [OF c f h h, of lcg 0] obtain v where
    v: "variable_dataset lcg demo_files 0 = Inr v" "length (varied_coords v) = 3"
       "\<forall>num<3. 2 \<le> random_lengths v ! num \<and> random_lengths v ! num \<le> 5 \<and>
              frame_shape (varied_coords v ! num) (nat (random_lengths v ! num)) 3 \<and>
              frame_shape (varied_forces v ! num) (nat (random_lengths v ! num)) 3 \<and>
              length (varied_embeddings v ! num) = nat (random_lengths v ! num)"
    by blast
  from v(3) have "2 \<le> random_lengths v ! 0 \<and> random_lengths v ! 0 \<le> 5 \<and>
              frame_shape (varied_coords v ! 0) (nat (random_lengths v ! 0)) 3 \<and>
              length (varied_embeddings v ! 0) = nat (random_lengths v ! 0)"
    by simp
  with v(1,2) c f h show ?thesis by blast
qed

text \<open>
  Without the seeding the draws depend on the state the generator starts in.
\<close>

lemma randint_depends_on_state:
  "np_random_randint lcg 2 6 4 3 \<noteq> np_random_randint lcg 2 6 4 4"
  by code_simp

text \<open>
  C10: the dataset does not depend on the state the generator is in when the notebook starts:
  the notebook seeds it with 1133 before the first draw, so two executions on the same files
  give the same \<open>random_lengths\<close>, \<open>varied_coords\<close>, \<open>varied_forces\<close> and
  \<open>varied_embeddings\<close> (or fail alike).
\<close>

theorem variable_dataset_deterministic:
  "variable_dataset G files st0 = variable_dataset G files st0'"
  by (simp add: variable_dataset_def np_random_seed_def)

theorem variable_dataset_deterministic_witness:
  "variable_dataset lcg demo_files 3 = variable_dataset lcg demo_files 4"
  using variable_dataset_deterministic [of lcg demo_files 3 4] .

section \<open>Properties of the free energies\<close>

lemma raw_energy_elem:
  "c \<le> T \<Longrightarrow>
   np_scale (- 0.6) (np_log_where (np_divide (real c) (real T))) = Fin (free_energy T c)"
  by (cases "0 < c"; cases "0 < T")
    (simp_all add: np_log_where_def np_divide_def free_energy_def zero_less_divide_iff)

lemma raw_energies_free:
  "raw_energies counts = map (map (\<lambda>c. Fin (free_energy (sum_list (concat counts)) c))) counts"
proof -
  have le: "c \<le> sum_list (concat counts)" if "row \<in> set counts" "c \<in> set row" for row c
    using that by (intro member_le_sum_list) auto
  have e: "np_scale (- 0.6) (np_log_where (np_divide (real c) (real (sum_list (concat counts)))))
             = Fin (free_energy (sum_list (concat counts)) c)"
    if "row \<in> set counts" "c \<in> set row" for row c
    using le [OF that] by (rule raw_energy_elem)
  show ?thesis
    unfolding raw_energies_def populations_def Let_def map_map o_def
    by (intro map_cong refl) (rule e, assumption+)
qed

lemma free_energy_zero_iff:
  assumes "c \<le> T"
  shows "free_energy T c = 0 \<longleftrightarrow> c = 0 \<or> c = T"
proof (cases "0 < c")
  case True
  then have T: "0 < T" using assms by simp
  have "ln (real c / real T) = 0 \<longleftrightarrow> real c / real T = 1"
    using True T by simp
  also have "\<dots> \<longleftrightarrow> c = T" using T by auto
  finally show ?thesis using True T by (simp add: free_energy_def)
next
  case False
  then show ?thesis by (simp add: free_energy_def)
qed

lemma filter_truthy_Fin:
  "filter np_truthy (map Fin xs) = map Fin (filter (\<lambda>x. x \<noteq> 0) xs)"
  by (induction xs) (simp_all add: np_truthy_def)

lemma fold_np_minimum_Fin: "fold np_minimum (map Fin xs) (Fin x) = Fin (fold min xs x)"
  by (induction xs arbitrary: x) simp_all

lemma np_min_Fin:
  "np_min (map Fin xs) = (if xs = [] then Inl ValueError else Inr (Fin (Min (set xs))))"
proof (cases xs)
  case Nil
  then show ?thesis by (simp add: np_min_def)
next
  case (Cons x rest)
  have "Min (set (x # rest)) = fold min rest x" by (rule Min.set_eq_fold)
  then show ?thesis using Cons by (simp add: np_min_def fold_np_minimum_Fin)
qed

lemma concat_map_map: "concat (map (map f) xss) = map f (concat xss)"
  by (induction xss) simp_all

lemma shift_energies_Fin:
  "shift_energies (map (map Fin) ess) =
     (if filter (\<lambda>x. x \<noteq> 0) (concat ess) = [] then Inl ValueError
      else Inr (map (map (\<lambda>x. Fin (if x \<noteq> 0
                  then x - Min (set (filter (\<lambda>x. x \<noteq> 0) (concat ess))) + 1 / 10 ^ 6 else 0))) ess))"
  by (simp add: shift_energies_def concat_map_map filter_truthy_Fin np_min_Fin ebind_def
      np_truthy_def o_def)

lemma occupied_below_total:
  fixes xs :: "nat list"
  assumes "c' \<in> set xs" "0 < c'" "c' < sum_list xs" "c \<in> set xs"
  shows "c < sum_list xs"
proof (rule ccontr)
  assume "\<not> c < sum_list xs"
  moreover have "c \<le> sum_list xs" using assms(4) by (intro member_le_sum_list) auto
  ultimately have c: "c = sum_list xs" by simp
  have "sum_list xs = c + sum_list (remove1 c xs)"
    using assms(4) sum_list_map_remove1 [of c xs "\<lambda>x. x"] by simp
  with c have z: "sum_list (remove1 c xs) = 0" by simp
  have "c' \<noteq> c" using assms(3) c by simp
  with assms(1) have "c' \<in> set (remove1 c xs)" by simp
  then have "c' \<le> sum_list (remove1 c xs)" by (intro member_le_sum_list) auto
  then have "c' \<le> 0" unfolding z .
  with assms(2) show False by simp
qed

lemma energies_result:
  fixes counts :: "nat list list"
  defines "T \<equiv> sum_list (concat counts)"
  defines "m \<equiv> Min (set (filter (\<lambda>x. x \<noteq> 0) (map (free_energy T) (concat counts))))"
  assumes occ: "c' \<in> set (concat counts)" "0 < c'" "c' < sum_list (concat counts)"
  shows "plot_ramachandran_energies counts =
           Inr (map (map (\<lambda>c. if c = 0 then Fin 0
                              else Fin (free_energy T c - m + 1 / 10 ^ 6))) counts)"
    and "\<exists>c \<in> set (concat counts). 0 < c \<and> m = free_energy T c"
    and "\<forall>c \<in> set (concat counts). 0 < c \<longrightarrow> m \<le> free_energy T c"
proof -
  let ?nz = "filter (\<lambda>x. x \<noteq> 0) (map (free_energy T) (concat counts))"
  have lt: "c < T" if "c \<in> set (concat counts)" for c
    unfolding T_def using occ that by (rule occupied_below_total)
  have nzc: "free_energy T c \<noteq> 0 \<longleftrightarrow> c \<noteq> 0" if "c \<in> set (concat counts)" for c
    using lt [OF that] free_energy_zero_iff [of c T] by auto
  have mem: "x \<in> set ?nz \<longleftrightarrow> (\<exists>c \<in> set (concat counts). 0 < c \<and> x = free_energy T c)" for x
    using nzc by auto
  have ne: "?nz \<noteq> []"
    using mem [of "free_energy T c'"] occ(1,2) by (auto simp del: set_filter)
  then have nes: "set ?nz \<noteq> {}" by (simp only: set_empty not_False_eq_True)
  have fin: "finite (set ?nz)" by (rule finite_set)
  have "m \<in> set ?nz" unfolding m_def using fin nes by (rule Min_in)
  then show "\<exists>c \<in> set (concat counts). 0 < c \<and> m = free_energy T c"
    using mem by blast
  have lo: "m \<le> x" if "x \<in> set ?nz" for x
    unfolding m_def using fin that by (rule Min_le)
  have "m \<le> free_energy T c" if "c \<in> set (concat counts)" "0 < c" for c
  proof -
    have "free_energy T c \<in> set ?nz" using mem that by blast
    then show ?thesis by (rule lo)
  qed
  then show "\<forall>c \<in> set (concat counts). 0 < c \<longrightarrow> m \<le> free_energy T c"
    by blast
  have "raw_energies counts = map (map Fin) (map (map (free_energy T)) counts)"
    by (simp add: raw_energies_free T_def o_def)
  then have "plot_ramachandran_energies counts =
      Inr (map (map (\<lambda>x. Fin (if x \<noteq> 0 then x - m + 1 / 10 ^ 6 else 0)))
             (map (map (free_energy T)) counts))"
    using ne unfolding plot_ramachandran_energies_def m_def
    by (simp only: shift_energies_Fin concat_map_map if_False)
  also have "\<dots> = Inr (map (map (\<lambda>c. if c = 0 then Fin 0
                              else Fin (free_energy T c - m + 1 / 10 ^ 6))) counts)"
  proof -
    have "Fin (if free_energy T c \<noteq> 0 then free_energy T c - m + 1 / 10 ^ 6 else 0) =
          (if c = 0 then Fin 0 else Fin (free_energy T c - m + 1 / 10 ^ 6))"
      if "row \<in> set counts" "c \<in> set row" for row c
    proof -
      have "c \<in> set (concat counts)" using that by auto
      then show ?thesis using nzc [of c] by (cases "c = 0") simp_all
    qed
    then show ?thesis
      unfolding map_map o_def sum.inject
      by (intro map_cong refl) blast
  qed
  finally show "plot_ramachandran_energies counts =
           Inr (map (map (\<lambda>c. if c = 0 then Fin 0
                              else Fin (free_energy T c - m + 1 / 10 ^ 6))) counts)" .
qed

lemma ln4: "ln (4::real) = 2 * ln 2"
  using ln_realpow [of 2 2] by simp

text \<open>
  The function \<open>plot_ramachandran\<close> is defined in the notebooks themselves. On the histogram
  with counts 1, 2, 0, 1 it does not display the counts: it displays the free energies of the
  bins relative to the most populated one, 0.6 ln 2 above it for the bins with half its
  population.
\<close>

theorem plot_ramachandran_converts_counts:
  "plot_ramachandran_energies [[1, 2], [0, 1]] =
     Inr [[Fin (0.6 * ln 2 + 1 / 10 ^ 6), Fin (1 / 10 ^ 6)],
          [Fin 0, Fin (0.6 * ln 2 + 1 / 10 ^ 6)]] \<and>
   plot_ramachandran_energies [[1, 2], [0, 1]] \<noteq> Inr [[Fin 1, Fin 2], [Fin 0, Fin 1]]"
proof -
  have l4: "ln (1 / 4 :: real) = - 2 * ln 2" using ln4 by (simp add: ln_div)
  have l2: "ln (1 / 2 :: real) = - ln 2" by (simp add: ln_div)
  have p: "0 < ln (2::real)" by simp
  have "plot_ramachandran_energies [[1, 2], [0, 1]] =
     Inr [[Fin (0.6 * ln 2 + 1 / 10 ^ 6), Fin (1 / 10 ^ 6)],
          [Fin 0, Fin (0.6 * ln 2 + 1 / 10 ^ 6)]]"
    using p
    by (simp add: plot_ramachandran_energies_def shift_energies_def raw_energies_def
        populations_def np_log_where_def np_divide_def np_min_def np_truthy_def ebind_def l4 l2
        min_def)
  moreover have "ln (2::real) \<le> 1" using ln_le_minus_one [of "2::real"] by simp
  ultimately show ?thesis by simp
qed

text \<open>
  C2, as amended: the notebooks do author a transformation of data. For a histogram with a bin
  that holds some but not all of the samples, \<open>plot_ramachandran\<close> turns the counts into free
  energies: an empty bin gets 0, and an occupied bin gets its free energy \<open>-0.6 ln (c / n)\<close>
  minus the lowest free energy \<open>m\<close> of an occupied bin, plus \<open>1e-6\<close>.
\<close>

theorem plot_ramachandran_free_energies:
  assumes "c' \<in> set (concat counts)" "0 < c'" "c' < sum_list (concat counts)"
  shows "\<exists>m. plot_ramachandran_energies counts =
           Inr (map (map (\<lambda>c. if c = 0 then Fin 0
                  else Fin (free_energy (sum_list (concat counts)) c - m + 1 / 10 ^ 6))) counts) \<and>
         (\<exists>c \<in> set (concat counts). 0 < c \<and> m = free_energy (sum_list (concat counts)) c) \<and>
         (\<forall>c \<in> set (concat counts). 0 < c \<longrightarrow> m \<le> free_energy (sum_list (concat counts)) c)"
  using energies_result [OF assms] by blast

theorem plot_ramachandran_free_energies_witness:
  "(1::nat) \<in> set (concat [[1, 2], [0, 1]]) \<and> (1::nat) < sum_list (concat [[1, 2], [0, 1]]) \<and>
   (\<exists>m. plot_ramachandran_energies [[1, 2], [0, 1]] =
      Inr [[Fin (free_energy 4 1 - m + 1 / 10 ^ 6), Fin (free_energy 4 2 - m + 1 / 10 ^ 6)],
           [Fin 0, Fin (free_energy 4 1 - m + 1 / 10 ^ 6)]])"
proof -
  have a: "(1::nat) \<in> set (concat [[1, 2], [0, 1]])" by simp
  have b: "(1::nat) < sum_list (concat [[1, 2], [0, 1]])" by simp
  from plot_ramachandran_free_energies [OF a _ b] obtain m where
    "plot_ramachandran_energies [[1, 2], [0, 1]] =
       Inr (map (map (\<lambda>c. if c = 0 then Fin 0
              else Fin (free_energy (sum_list (concat [[1, 2], [0, 1]])) c - m + 1 / 10 ^ 6)))
            [[1, 2], [0, 1]])"
    by auto
  then have "plot_ramachandran_energies [[1, 2], [0, 1]] =
      Inr [[Fin (free_energy 4 1 - m + 1 / 10 ^ 6), Fin (free_energy 4 2 - m + 1 / 10 ^ 6)],
           [Fin 0, Fin (free_energy 4 1 - m + 1 / 10 ^ 6)]]"
    by simp
  with a b show ?thesis by blast
qed

text \<open>
  On every such histogram the energies are non-negative, exactly the empty bins are zero and
  masked, and the lowest energy of an unmasked bin is \<open>1e-6\<close>.
\<close>

lemma plot_ramachandran_energies_bounds:
  assumes "c' \<in> set (concat counts)" "0 < c'" "c' < sum_list (concat counts)"
  shows "\<exists>E. plot_ramachandran_energies counts = Inr E \<and>
           list_all (list_all (\<lambda>v. \<exists>y. v = Fin y \<and> 0 \<le> y)) E \<and>
           masked_where_zero E = map (map (\<lambda>c. c = 0)) counts \<and>
           np_min (filter np_truthy (concat E)) = Inr (Fin (1 / 10 ^ 6))"
proof -
  define T where "T = sum_list (concat counts)"
  define m where "m = Min (set (filter (\<lambda>x. x \<noteq> 0) (map (free_energy T) (concat counts))))"
  define g where "g = (\<lambda>c. if c = 0 then 0 else free_energy T c - m + 1 / 10 ^ 6)"
  define E where "E = map (map (\<lambda>c. Fin (g c))) counts"
  have "(if c = 0 then Fin 0 else Fin (free_energy T c - m + 1 / 10 ^ 6)) = Fin (g c)" for c
    by (simp add: g_def)
  then have run: "plot_ramachandran_energies counts = Inr E"
    using energies_result(1) [OF assms] unfolding E_def T_def m_def by (simp only:)
  obtain c0 where c0: "c0 \<in> set (concat counts)" "0 < c0" "m = free_energy T c0"
    using energies_result(2) [OF assms] unfolding T_def m_def by blast
  have lo: "m \<le> free_energy T c" if "c \<in> set (concat counts)" "0 < c" for c
    using energies_result(3) [OF assms] that unfolding T_def m_def by blast
  have pos: "1 / 10 ^ 6 \<le> g c" if "c \<in> set (concat counts)" "0 < c" for c
    using lo [OF that] that(2) by (simp add: g_def)
  have gpos: "0 < g c" if "c \<in> set (concat counts)" "0 < c" for c
  proof -
    have "(0::real) < 1 / 10 ^ 6" by simp
    then show ?thesis using pos [OF that] by (rule less_le_trans)
  qed
  have gz: "g 0 = 0" by (simp add: g_def)
  have g0: "g c0 = 1 / 10 ^ 6" using c0(2,3) by (simp add: g_def)
  have inc: "c \<in> set (concat counts)" if "row \<in> set counts" "c \<in> set row" for row c
    using that by auto
  have nonneg: "list_all (list_all (\<lambda>v. \<exists>y. v = Fin y \<and> 0 \<le> y)) E"
  proof -
    have "0 \<le> g c" if "row \<in> set counts" "c \<in> set row" for row c
      using gpos [OF inc [OF that]] gz by (cases "c = 0") (simp_all add: less_imp_le)
    then show ?thesis by (simp add: E_def list_all_iff)
  qed
  have mask: "masked_where_zero E = map (map (\<lambda>c. c = 0)) counts"
  proof -
    have "(Fin (g c) = Fin 0) = (c = 0)" if "row \<in> set counts" "c \<in> set row" for row c
      using gpos [OF inc [OF that]] gz by (cases "c = 0") simp_all
    then show ?thesis
      unfolding masked_where_zero_def E_def map_map o_def
      by (intro map_cong refl) blast
  qed
  have minv: "np_min (filter np_truthy (concat E)) = Inr (Fin (1 / 10 ^ 6))"
  proof -
    let ?nz = "filter (\<lambda>x. x \<noteq> 0) (map g (concat counts))"
    have cE: "concat E = map Fin (map g (concat counts))"
      by (simp add: E_def concat_map_map o_def)
    have "g c0 \<noteq> 0" using g0 by simp
    then have in0: "g c0 \<in> set ?nz" using c0(1) by simp
    have ge: "1 / 10 ^ 6 \<le> x" if "x \<in> set ?nz" for x
    proof -
      from that obtain c where c: "c \<in> set (concat counts)" "x = g c" "x \<noteq> 0" by auto
      then have "0 < c" using gz by (cases "c = 0") simp_all
      then show ?thesis using pos [OF c(1)] c(2) by simp
    qed
    have "Min (set ?nz) = 1 / 10 ^ 6"
    proof (rule Min_eqI)
      show "finite (set ?nz)" by (rule finite_set)
      show "1 / 10 ^ 6 \<le> y" if "y \<in> set ?nz" for y using that by (rule ge)
      show "1 / 10 ^ 6 \<in> set ?nz" using in0 unfolding g0 .
    qed
    moreover have "?nz \<noteq> []" using in0 by (auto simp del: set_filter)
    ultimately show ?thesis
      unfolding cE filter_truthy_Fin np_min_Fin by (simp only: if_False)
  qed
  from run nonneg mask minv show ?thesis by blast
qed

text \<open>
  C8: the energies are to be non-negative, zero and masked in the empty bins, and \<open>1e-6\<close> at
  the lowest unmasked bin, for every histogram whose counts are not all zero. When all the
  samples fall into one bin, as here the 3 samples of a 2 by 2 histogram, the population of
  that bin is 1, its energy before the shift is zero like that of the empty bins, the
  selection \<open>energies[np.nonzero(energies)]\<close> is empty and \<open>np.min\<close> raises: no array of
  energies is computed.
\<close>

theorem plot_ramachandran_single_bin:
  "plot_ramachandran_energies [[0, 0], [0, 3]] = Inl ValueError \<and>
   sum_list (concat [[0, 0], [0, 3 :: nat]]) = 3"
  by (simp add: plot_ramachandran_energies_def shift_energies_def raw_energies_def populations_def
      np_log_where_def np_divide_def np_min_def np_truthy_def ebind_def)

text \<open>
  The mask \<open>where=(populations > 0)\<close> is a guard written in the notebooks: in an empty bin the
  energy is 0, where the logarithm without the mask gives an infinite one.
\<close>

theorem masked_log_guards_empty_bins:
  "raw_energies [[0, 4]] = [[Fin 0, Fin 0]] \<and> unguarded_energies [[0, 4]] = [[PInf, Fin 0]]"
  by (simp add: raw_energies_def unguarded_energies_def populations_def np_log_where_def
      np_divide_def)

text \<open>
  C6, as amended: the one guard the notebooks write is that mask, which keeps every energy
  before the shift finite. They handle no exception: when \<open>plot_ramachandran\<close> fails, it fails
  with the error \<open>np.min\<close> raised; a missing data file surfaces as the error of \<open>np.load\<close>; and
  \<open>n_sims = 0\<close> surfaces as the division by zero.
\<close>

theorem masked_log_finite_errors_propagate:
  "list_all (list_all (\<lambda>v. \<exists>y. v = Fin y)) (raw_energies counts) \<and>
   (plot_ramachandran_energies counts = Inl e \<longrightarrow>
      np_min (filter np_truthy (concat (raw_energies counts))) = Inl e) \<and>
   (files ''./data/ala2_coordinates.npy'' = None \<longrightarrow>
      variable_dataset G files st0 = Inl FileNotFoundError) \<and>
   initial_coords coords 0 = Inl ZeroDivisionError"
proof -
  have 1: "list_all (list_all (\<lambda>v. \<exists>y. v = Fin y)) (raw_energies counts)"
    by (simp add: raw_energies_free list_all_iff)
  have 2: "np_min (filter np_truthy (concat (raw_energies counts))) = Inl e"
    if "plot_ramachandran_energies counts = Inl e"
    using that
    by (cases "np_min (filter np_truthy (concat (raw_energies counts)))")
      (simp_all add: plot_ramachandran_energies_def shift_energies_def ebind_def)
  have 3: "variable_dataset G files st0 = Inl FileNotFoundError"
    if "files ''./data/ala2_coordinates.npy'' = None"
    using that by (simp add: variable_dataset_def np_load_def ebind_def)
  have 4: "initial_coords coords 0 = Inl ZeroDivisionError"
    by (simp add: initial_coords_def py_floordiv_def ebind_def)
  from 1 2 3 4 show ?thesis by blast
qed

theorem masked_log_finite_errors_propagate_witness:
  "plot_ramachandran_energies [[0, 0], [0, 3]] = Inl ValueError \<and>
   np_min (filter np_truthy (concat (raw_energies [[0, 0], [0, 3]]))) = Inl ValueError \<and>
   (\<lambda>p. None :: frame list option) ''./data/ala2_coordinates.npy'' = None \<and>
   variable_dataset lcg (\<lambda>p. None) 0 = Inl FileNotFoundError"
proof -
  have a: "plot_ramachandran_energies [[0, 0], [0, 3]] = Inl ValueError"
    by (simp add: plot_ramachandran_energies_def shift_energies_def raw_energies_def
        populations_def np_log_where_def np_divide_def np_min_def np_truthy_def ebind_def)
  from masked_log_finite_errors_propagate
         [of "[[0, 0], [0, 3]]" ValueError "\<lambda>p. None" lcg 0 "[]"] a
  show ?thesis by simp
qed

section \<open>Properties of the runs\<close>

lemma map_filter_append:
  "List.map_filter f (xs @ ys) = List.map_filter f xs @ List.map_filter f ys"
  by (simp add: List.map_filter_def)

lemma map_filter_const:
  "(\<And>c. c \<in> set xs \<Longrightarrow> f c = Some p) \<Longrightarrow> List.map_filter f xs = replicate (length xs) p"
  by (induction xs) (simp_all add: List.map_filter_def)

lemma remdups_adj_twice: "remdups_adj (xs @ x # x # ys) = remdups_adj (xs @ x # ys)"
  by (induction xs rule: remdups_adj.induct) simp_all

lemma remdups_adj_replicate_mid:
  "0 < k \<Longrightarrow> remdups_adj (xs @ replicate k x @ ys) = remdups_adj (xs @ x # ys)"
proof (induction k)
  case 0
  then show ?case by simp
next
  case (Suc k)
  show ?case
  proof (cases "k = 0")
    case True
    then show ?thesis by simp
  next
    case False
    then have "remdups_adj (xs @ replicate k x @ ys) = remdups_adj (xs @ x # ys)"
      using Suc.IH by simp
    moreover obtain j where "k = Suc j" using False by (cases k) auto
    ultimately show ?thesis by (simp add: remdups_adj_twice)
  qed
qed

lemma batch_iteration_calls: "c \<in> set (batch_iteration epoch num) \<Longrightarrow> phase_of c = Some Training"
  by (auto simp: batch_iteration_def Let_def)

lemma cgschnet_training_run:
  assumes "0 < n_batches"
  shows "cgschnet_training s n_batches =
           Inr (cgschnet_epochs s n_batches @
                (if save_model s then [TorchSave (model_path (directory s) ''ala2_cgschnet.pt'')]
                 else []))"
proof -
  have "emap (train_epoch n_batches) [1..<num_epochs s + 1] =
          Inr (map (\<lambda>epoch. concat (epoch_iterations n_batches epoch) @ [SchedulerStep])
                 [1..<num_epochs s + 1])"
    using assms by (intro emap_Inr) (simp add: train_epoch_def)
  then show ?thesis
    by (simp add: cgschnet_training_def ebind_def cgschnet_epochs_def)
qed

lemma epochs_calls:
  "c \<in> set (concat (map (\<lambda>epoch. concat (epoch_iterations n_batches epoch) @ [SchedulerStep]) es))
   \<Longrightarrow> phase_of c = Some Training"
  by (induction es) (auto simp: epoch_iterations_def dest: batch_iteration_calls)

lemma cgschnet_epochs_calls:
  "c \<in> set (cgschnet_epochs s n_batches) \<Longrightarrow> phase_of c = Some Training"
  unfolding cgschnet_epochs_def by (rule epochs_calls)

lemma concat_map_nonempty: "es \<noteq> [] \<Longrightarrow> (\<And>e. f e \<noteq> []) \<Longrightarrow> concat (map f es) \<noteq> []"
  by (cases es) auto

lemma epochs_range_nonempty: "0 < n \<Longrightarrow> [1..<n + 1] \<noteq> []"
  by simp

lemma cgschnet_epochs_nonempty: "0 < num_epochs s \<Longrightarrow> cgschnet_epochs s n_batches \<noteq> []"
  unfolding cgschnet_epochs_def
  by (intro concat_map_nonempty epochs_range_nonempty) simp_all

lemma variable_epochs_calls:
  "c \<in> set (concat (map variable_epoch es)) \<Longrightarrow> phase_of c = Some Training"
  by (induction es) (auto simp: variable_epoch_def)

lemma variable_iterations_calls:
  "c \<in> set (concat (variable_iterations s)) \<Longrightarrow> phase_of c = Some Training"
  unfolding variable_iterations_def by (rule variable_epochs_calls)

lemma variable_iterations_nonempty:
  "0 < num_epochs s \<Longrightarrow> concat (variable_iterations s) \<noteq> []"
  unfolding variable_iterations_def
  by (intro concat_map_nonempty epochs_range_nonempty) (simp_all add: variable_epoch_def)

lemma phases_around_training:
  assumes "\<And>c. c \<in> set T \<Longrightarrow> phase_of c = Some Training" "T \<noteq> []"
    and "List.map_filter phase_of S = []"
  shows "phases (A @ T @ S @ B) =
           remdups_adj (List.map_filter phase_of A @ Training # List.map_filter phase_of B)"
proof -
  have "List.map_filter phase_of T = replicate (length T) Training"
    using assms(1) by (rule map_filter_const)
  moreover have "0 < length T" using assms(2) by simp
  ultimately show ?thesis
    using assms(3) by (simp add: phases_def map_filter_append remdups_adj_replicate_mid)
qed

lemma save_phases:
  "List.map_filter phase_of (if b then [TorchSave p] else []) = []"
  by (simp add: List.map_filter_def)

lemma cgschnet_fixed_phases:
  "remdups_adj (List.map_filter phase_of cgschnet_before_training @
                Training # List.map_filter phase_of cgschnet_after_training) =
     [DataLoad, DatasetConstruction, ModelConstruction, Training, Plotting, Simulation, Plotting]"
  by code_simp

lemma variable_fixed_phases:
  "remdups_adj (List.map_filter phase_of variable_before_training @
                Training # List.map_filter phase_of variable_after_training) =
     [DataLoad, DatasetConstruction, ModelConstruction, Training, Plotting, DataLoad,
      Simulation, Plotting]"
  by code_simp

lemma cgschnet_notebook_phases:
  assumes "0 < num_epochs s" "0 < n_batches"
  shows "run_phases (cgschnet_notebook s n_batches) =
           Some [DataLoad, DatasetConstruction, ModelConstruction, Training, Plotting,
                 Simulation, Plotting]"
proof -
  let ?S = "if save_model s then [TorchSave (model_path (directory s) ''ala2_cgschnet.pt'')]
            else []"
  have "cgschnet_notebook s n_batches =
          Inr (cgschnet_before_training @ cgschnet_epochs s n_batches @ ?S @
               cgschnet_after_training)"
    using assms(2) by (simp add: cgschnet_notebook_def cgschnet_training_run ebind_def)
  moreover have "phases (cgschnet_before_training @ cgschnet_epochs s n_batches @ ?S @
               cgschnet_after_training) =
      remdups_adj (List.map_filter phase_of cgschnet_before_training @
                Training # List.map_filter phase_of cgschnet_after_training)"
    using cgschnet_epochs_calls cgschnet_epochs_nonempty [OF assms(1)] save_phases
    by (rule phases_around_training)
  ultimately show ?thesis
    by (simp only: run_phases_def cgschnet_fixed_phases sum.case)
qed

lemma variable_notebook_phases:
  assumes "0 < num_epochs s"
  shows "phases (variable_notebook s) =
           [DataLoad, DatasetConstruction, ModelConstruction, Training, Plotting, DataLoad,
            Simulation, Plotting]"
proof -
  let ?S = "if save_model s then [TorchSave (model_path (directory s) ''variable_model.pt'')]
            else []"
  have "variable_notebook s =
          variable_before_training @ concat (variable_iterations s) @ ?S @
          variable_after_training"
    by (simp add: variable_notebook_def variable_training_def)
  moreover have "phases (variable_before_training @ concat (variable_iterations s) @ ?S @
          variable_after_training) =
      remdups_adj (List.map_filter phase_of variable_before_training @
                Training # List.map_filter phase_of variable_after_training)"
    using variable_iterations_calls variable_iterations_nonempty [OF assms] save_phases
    by (rule phases_around_training)
  ultimately show ?thesis
    by (simp only: variable_fixed_phases)
qed

lemma files_read_append: "files_read (xs @ ys) = files_read xs @ files_read ys"
  by (simp add: files_read_def)

lemma files_written_append: "files_written (xs @ ys) = files_written xs @ files_written ys"
  by (simp add: files_written_def)

lemma training_calls_no_files:
  assumes "\<And>c. c \<in> set T \<Longrightarrow> phase_of c = Some Training"
  shows "files_read T = []" and "files_written T = []"
proof -
  have "(case c of NpLoad p \<Rightarrow> [p] | _ \<Rightarrow> []) = []"
       "(case c of TorchSave p \<Rightarrow> [p] | _ \<Rightarrow> []) = []" if "c \<in> set T" for c
    using assms [OF that] by (cases c; simp)+
  then show "files_read T = []" and "files_written T = []"
    by (simp_all add: files_read_def files_written_def)
qed

lemma fixed_files:
  "files_read cgschnet_before_training = [''./data/ala2_coordinates.npy'', ''./data/ala2_forces.npy'']"
  "files_written cgschnet_before_training = []"
  "files_read cgschnet_after_training = []"
  "files_written cgschnet_after_training = []"
  "files_read variable_before_training = [''./data/ala2_coordinates.npy'', ''./data/ala2_forces.npy'']"
  "files_written variable_before_training = []"
  "files_read variable_after_training = [''./data/ala2_coordinates.npy'', ''./data/ala2_forces.npy'']"
  "files_written variable_after_training = []"
  by code_simp+

lemma save_files:
  "files_read (if b then [TorchSave p] else []) = []"
  "files_written (if b then [TorchSave p] else []) = (if b then [p] else [])"
  by (simp_all add: files_read_def files_written_def)

lemma cgschnet_notebook_files:
  assumes "0 < n_batches"
  shows "\<exists>run. cgschnet_notebook s n_batches = Inr run \<and>
           files_read run = [''./data/ala2_coordinates.npy'', ''./data/ala2_forces.npy''] \<and>
           files_written run =
             (if save_model s then [directory s @ ''/ala2_cgschnet.pt''] else [])"
proof -
  let ?S = "if save_model s then [TorchSave (model_path (directory s) ''ala2_cgschnet.pt'')]
            else []"
  let ?run = "cgschnet_before_training @ cgschnet_epochs s n_batches @ ?S @
               cgschnet_after_training"
  have r: "cgschnet_notebook s n_batches = Inr ?run"
    using assms by (simp add: cgschnet_notebook_def cgschnet_training_run ebind_def)
  have t: "files_read (cgschnet_epochs s n_batches) = []"
          "files_written (cgschnet_epochs s n_batches) = []"
    using cgschnet_epochs_calls training_calls_no_files [of "cgschnet_epochs s n_batches"]
    by blast+
  have "files_read ?run = [''./data/ala2_coordinates.npy'', ''./data/ala2_forces.npy'']"
    by (simp only: files_read_append fixed_files save_files t append_Nil append_Nil2)
  moreover have "files_written ?run =
      (if save_model s then [directory s @ ''/ala2_cgschnet.pt''] else [])"
    by (simp only: files_written_append fixed_files save_files t append_Nil append_Nil2)
      (simp add: model_path_def)
  ultimately show ?thesis using r by blast
qed

lemma variable_notebook_files:
  "files_read (variable_notebook s) =
     [''./data/ala2_coordinates.npy'', ''./data/ala2_forces.npy'',
      ''./data/ala2_coordinates.npy'', ''./data/ala2_forces.npy'']"
  "files_written (variable_notebook s) =
     (if save_model s then [directory s @ ''/variable_model.pt''] else [])"
proof -
  have t: "files_read (concat (variable_iterations s)) = []"
          "files_written (concat (variable_iterations s)) = []"
    using variable_iterations_calls training_calls_no_files [of "concat (variable_iterations s)"]
    by blast+
  show "files_read (variable_notebook s) =
     [''./data/ala2_coordinates.npy'', ''./data/ala2_forces.npy'',
      ''./data/ala2_coordinates.npy'', ''./data/ala2_forces.npy'']"
    unfolding variable_notebook_def variable_training_def
    by (simp only: files_read_append fixed_files save_files t append_Nil2 append.simps)
  show "files_written (variable_notebook s) =
     (if save_model s then [directory s @ ''/variable_model.pt''] else [])"
    unfolding variable_notebook_def variable_training_def
    by (simp only: files_written_append fixed_files save_files t append_Nil append_Nil2)
      (simp add: model_path_def)
qed

lemma batch_iteration_trace:
  "batch_iteration epoch num =
     [ZeroGrad,
      Forward (BatchCoord epoch num) (BatchEmbedding epoch num),
      Criterion ForceLoss (PredForce (BatchCoord epoch num) (BatchEmbedding epoch num))
        (BatchForce epoch num),
      Backward (Loss ForceLoss (PredForce (BatchCoord epoch num) (BatchEmbedding epoch num))
        (BatchForce epoch num)),
      OptimizerStep, LipschitzProjection 4]"
  by (simp add: batch_iteration_def Let_def lipschitz_strength_def ala2_net_def)

lemma epoch_iterations_nth:
  "num < n_batches \<Longrightarrow> epoch_iterations n_batches epoch ! num = batch_iteration epoch num"
  by (simp add: epoch_iterations_def)

lemma variable_iterations_trace:
  "variable_iterations s =
     replicate (num_epochs s) [DatasetLoss variable_model True None, SchedulerStep]"
proof -
  have e: "variable_epoch = (\<lambda>epoch. [DatasetLoss variable_model True None, SchedulerStep])"
    by (rule ext) (simp add: variable_epoch_def)
  have l: "length [1..<num_epochs s + 1] = num_epochs s" by simp
  show ?thesis
    unfolding variable_iterations_def e map_replicate_const l ..
qed

lemma variable_epochs_no_projection:
  "\<not> list_ex applies_projection (concat (map variable_epoch es))"
  by (induction es) (simp_all add: variable_epoch_def applies_projection_def)

lemma variable_training_no_projection:
  "\<not> list_ex applies_projection (variable_training s)"
  using variable_epochs_no_projection [of "[1..<num_epochs s + 1]"]
  by (simp add: variable_training_def variable_iterations_def applies_projection_def)

lemma variable_training_hands_optimizer:
  "0 < num_epochs s \<Longrightarrow> DatasetLoss variable_model True None \<in> set (variable_training s)"
proof -
  assume "0 < num_epochs s"
  then have "[DatasetLoss variable_model True None, SchedulerStep]
               \<in> set (variable_iterations s)"
    by (simp add: variable_iterations_trace)
  moreover have "DatasetLoss variable_model True None
                   \<in> set [DatasetLoss variable_model True None, SchedulerStep]"
    by simp
  ultimately have "DatasetLoss variable_model True None \<in> set (concat (variable_iterations s))"
    unfolding set_concat by (rule UN_I)
  then show ?thesis
    unfolding variable_training_def set_append by (rule UnI1)
qed

text \<open>
  A loop does apply the projection when it calls it, as each iteration of the notebook on
  SchNet embeddings does, or when it hands it to \<open>dataset_loss\<close>.
\<close>

lemma projection_is_seen:
  "list_ex applies_projection (batch_iteration epoch num)"
  "applies_projection (DatasetLoss model opt (Some (LipschitzProjection 4)))"
  by (simp_all add: batch_iteration_trace applies_projection_def)

text \<open>
  The training loop of the variable-size notebook hands the model, built with \<open>ForceLoss\<close>,
  and the optimizer to \<open>dataset_loss\<close>, so the optimizer steps; but nowhere in that training is
  a Lipschitz projection called, or handed to \<open>dataset_loss\<close> as its regularization function.
\<close>

theorem variable_training_not_projected:
  "DatasetLoss variable_model True None \<in> set (variable_training variable_settings) \<and>
   criterion variable_model = ForceLoss \<and>
   \<not> list_ex applies_projection (variable_training variable_settings)"
proof -
  have "0 < num_epochs variable_settings" by (simp add: variable_settings_def)
  then have "DatasetLoss variable_model True None \<in> set (variable_training variable_settings)"
    by (rule variable_training_hands_optimizer)
  moreover have "criterion variable_model = ForceLoss" by (simp add: variable_model_def)
  ultimately show ?thesis
    using variable_training_no_projection [of variable_settings] by blast
qed

text \<open>
  C1, as amended: both notebooks train by force matching, on a network built with the
  \<open>ForceLoss\<close> criterion. In the notebook on SchNet embeddings the iteration for batch \<open>num\<close> of
  epoch \<open>epoch\<close> is exactly: zero the gradients, predict the forces of that batch, apply the
  criterion to them and to the reference forces of that same batch, backpropagate that loss,
  step the optimizer, and project with Lipschitz strength 4.0 right after the step; an epoch
  has one such iteration per batch, and the training is the sequence of the epochs, each ended
  by the step of the scheduler. In the variable-size notebook the iteration of every epoch
  hands the model and the optimizer to \<open>dataset_loss\<close>, without a regularization function, and
  steps the scheduler; no Lipschitz projection is applied in that training.
\<close>

theorem training_loops:
  "(num < n_batches \<longrightarrow>
      epoch_iterations n_batches epoch ! num =
        [ZeroGrad,
         Forward (BatchCoord epoch num) (BatchEmbedding epoch num),
         Criterion ForceLoss (PredForce (BatchCoord epoch num) (BatchEmbedding epoch num))
           (BatchForce epoch num),
         Backward (Loss ForceLoss (PredForce (BatchCoord epoch num) (BatchEmbedding epoch num))
           (BatchForce epoch num)),
         OptimizerStep, LipschitzProjection 4]) \<and>
   length (epoch_iterations n_batches epoch) = n_batches \<and>
   (0 < n_batches \<longrightarrow>
      cgschnet_training s n_batches =
        Inr (concat (map (\<lambda>epoch. concat (epoch_iterations n_batches epoch) @ [SchedulerStep])
                       [1..<num_epochs s + 1]) @
             (if save_model s then [TorchSave (model_path (directory s) ''ala2_cgschnet.pt'')]
              else []))) \<and>
   criterion ala2_net = ForceLoss \<and> criterion variable_model = ForceLoss \<and>
   variable_iterations s' =
     replicate (num_epochs s') [DatasetLoss variable_model True None, SchedulerStep] \<and>
   variable_training s' =
     concat (variable_iterations s') @
     (if save_model s' then [TorchSave (model_path (directory s') ''variable_model.pt'')]
      else []) \<and>
   \<not> list_ex applies_projection (variable_training s')"
proof -
  have 1: "epoch_iterations n_batches epoch ! num =
        [ZeroGrad,
         Forward (BatchCoord epoch num) (BatchEmbedding epoch num),
         Criterion ForceLoss (PredForce (BatchCoord epoch num) (BatchEmbedding epoch num))
           (BatchForce epoch num),
         Backward (Loss ForceLoss (PredForce (BatchCoord epoch num) (BatchEmbedding epoch num))
           (BatchForce epoch num)),
         OptimizerStep, LipschitzProjection 4]" if "num < n_batches"
    using epoch_iterations_nth [OF that, of epoch] by (simp only: batch_iteration_trace)
  have 2: "length (epoch_iterations n_batches epoch) = n_batches"
    by (simp add: epoch_iterations_def)
  have 3: "cgschnet_training s n_batches =
        Inr (concat (map (\<lambda>epoch. concat (epoch_iterations n_batches epoch) @ [SchedulerStep])
                       [1..<num_epochs s + 1]) @
             (if save_model s then [TorchSave (model_path (directory s) ''ala2_cgschnet.pt'')]
              else []))" if "0 < n_batches"
    using cgschnet_training_run [OF that, of s] by (simp only: cgschnet_epochs_def)
  have 4: "criterion ala2_net = ForceLoss" "criterion variable_model = ForceLoss"
    by (simp_all add: ala2_net_def variable_model_def)
  have 5: "variable_training s' =
     concat (variable_iterations s') @
     (if save_model s' then [TorchSave (model_path (directory s') ''variable_model.pt'')]
      else [])"
    by (rule variable_training_def)
  from 1 2 3 4 5 variable_iterations_trace [of s'] variable_training_no_projection [of s']
  show ?thesis by blast
qed

theorem training_loops_witness:
  "(0::nat) < 2 \<and>
   epoch_iterations 2 1 ! 0 =
     [ZeroGrad,
      Forward (BatchCoord 1 0) (BatchEmbedding 1 0),
      Criterion ForceLoss (PredForce (BatchCoord 1 0) (BatchEmbedding 1 0)) (BatchForce 1 0),
      Backward (Loss ForceLoss (PredForce (BatchCoord 1 0) (BatchEmbedding 1 0))
        (BatchForce 1 0)),
      OptimizerStep, LipschitzProjection 4] \<and>
   (\<exists>run. cgschnet_training cgschnet_settings 2 = Inr run) \<and>
   variable_iterations variable_settings =
     replicate 15 [DatasetLoss variable_model True None, SchedulerStep] \<and>
   \<not> list_ex applies_projection (variable_training variable_settings)"
proof -
  have c: "(0::nat) < 2" by simp
  have n: "num_epochs variable_settings = 15" by (simp add: variable_settings_def)
  note t = training_loops [of 0 2 1 cgschnet_settings variable_settings]
  from t c have 1: "epoch_iterations 2 1 ! 0 =
     [ZeroGrad,
      Forward (BatchCoord 1 0) (BatchEmbedding 1 0),
      Criterion ForceLoss (PredForce (BatchCoord 1 0) (BatchEmbedding 1 0)) (BatchForce 1 0),
      Backward (Loss ForceLoss (PredForce (BatchCoord 1 0) (BatchEmbedding 1 0))
        (BatchForce 1 0)),
      OptimizerStep, LipschitzProjection 4]"
    by blast
  from t c have 2: "\<exists>run. cgschnet_training cgschnet_settings 2 = Inr run"
    by blast
  from t have "variable_iterations variable_settings =
     replicate (num_epochs variable_settings)
       [DatasetLoss variable_model True None, SchedulerStep]"
    by blast
  then have 3: "variable_iterations variable_settings =
     replicate 15 [DatasetLoss variable_model True None, SchedulerStep]"
    unfolding n .
  from t have 4: "\<not> list_ex applies_projection (variable_training variable_settings)"
    by blast
  from c 1 2 3 4 show ?thesis by blast
qed

text \<open>
  With the settings the notebooks ship with, neither run has the order of phases of the
  specification: the training loss is plotted before the simulation, and the variable-size
  notebook loads its data a second time.
\<close>

theorem notebooks_leave_the_pipeline:
  "run_phases (cgschnet_notebook cgschnet_settings 1) =
     Some [DataLoad, DatasetConstruction, ModelConstruction, Training, Plotting, Simulation,
           Plotting] \<and>
   run_phases (cgschnet_notebook cgschnet_settings 1) \<noteq> Some pipeline \<and>
   phases (variable_notebook variable_settings) =
     [DataLoad, DatasetConstruction, ModelConstruction, Training, Plotting, DataLoad,
      Simulation, Plotting] \<and>
   phases (variable_notebook variable_settings) \<noteq> pipeline"
proof -
  have "0 < num_epochs cgschnet_settings" "0 < num_epochs variable_settings" "(0::nat) < 1"
    by (simp_all add: cgschnet_settings_def variable_settings_def)
  then show ?thesis
    using cgschnet_notebook_phases [of cgschnet_settings 1]
      variable_notebook_phases [of variable_settings]
    by (simp add: pipeline_def)
qed

text \<open>
  C3, as amended: when the training loop runs at least once, the phases follow each other in
  the order data load, dataset construction, model construction, training, plotting,
  simulation, plotting; the variable-size notebook loads the data a second time between the
  first plotting and the simulation.
\<close>

theorem notebook_phase_order:
  assumes "0 < num_epochs s" "0 < n_batches" "0 < num_epochs s'"
  shows "run_phases (cgschnet_notebook s n_batches) =
           Some [DataLoad, DatasetConstruction, ModelConstruction, Training, Plotting,
                 Simulation, Plotting] \<and>
         phases (variable_notebook s') =
           [DataLoad, DatasetConstruction, ModelConstruction, Training, Plotting, DataLoad,
            Simulation, Plotting]"
  using cgschnet_notebook_phases [OF assms(1,2)] variable_notebook_phases [OF assms(3)]
  by (rule conjI)

theorem notebook_phase_order_witness:
  "0 < num_epochs cgschnet_settings \<and> 0 < num_epochs variable_settings \<and>
   run_phases (cgschnet_notebook cgschnet_settings 3) =
     Some [DataLoad, DatasetConstruction, ModelConstruction, Training, Plotting, Simulation,
           Plotting] \<and>
   phases (variable_notebook variable_settings) =
     [DataLoad, DatasetConstruction, ModelConstruction, Training, Plotting, DataLoad,
      Simulation, Plotting]"
proof -
  have a: "0 < num_epochs cgschnet_settings" and b: "0 < num_epochs variable_settings"
    by (simp_all add: cgschnet_settings_def variable_settings_def)
  have c: "(0::nat) < 3" by simp
  from notebook_phase_order [OF a c b] a b show ?thesis by blast
qed

text \<open>With \<open>save_model = True\<close> either notebook writes the trained model to a file.\<close>

theorem save_model_writes_a_file:
  "run_files_written (cgschnet_notebook (cgschnet_settings\<lparr>save_model := True\<rparr>) 1) =
     Some [''./ala2_cgschnet.pt''] \<and>
   files_written (variable_notebook (variable_settings\<lparr>save_model := True\<rparr>)) =
     [''./variable_model.pt'']"
proof -
  have "(0::nat) < 1" by simp
  from cgschnet_notebook_files [OF this, of "cgschnet_settings\<lparr>save_model := True\<rparr>"]
    variable_notebook_files(2) [of "variable_settings\<lparr>save_model := True\<rparr>"]
  show ?thesis by (auto simp: cgschnet_settings_def variable_settings_def run_files_written_def)
qed

text \<open>
  C5, as amended: the files a run reads are the two \<open>.npy\<close> arrays (twice in the variable-size
  notebook); it writes no file when \<open>save_model\<close> is false, and exactly the file of the model
  in \<open>directory\<close> when \<open>save_model\<close> is true.
\<close>

theorem notebook_files:
  assumes "0 < n_batches"
  shows "(\<exists>run. cgschnet_notebook s n_batches = Inr run \<and>
            files_read run = [''./data/ala2_coordinates.npy'', ''./data/ala2_forces.npy''] \<and>
            files_written run =
              (if save_model s then [directory s @ ''/ala2_cgschnet.pt''] else [])) \<and>
         files_read (variable_notebook s') =
           [''./data/ala2_coordinates.npy'', ''./data/ala2_forces.npy'',
            ''./data/ala2_coordinates.npy'', ''./data/ala2_forces.npy''] \<and>
         files_written (variable_notebook s') =
           (if save_model s' then [directory s' @ ''/variable_model.pt''] else [])"
  using cgschnet_notebook_files [OF assms, of s] variable_notebook_files [of s'] by blast

theorem notebook_files_witness:
  "(\<exists>run. cgschnet_notebook cgschnet_settings 2 = Inr run \<and>
      files_read run = [''./data/ala2_coordinates.npy'', ''./data/ala2_forces.npy''] \<and>
      files_written run = []) \<and>
   files_written (variable_notebook variable_settings) = []"
proof -
  have "(0::nat) < 2" by simp
  from notebook_files [OF this, of cgschnet_settings variable_settings]
  show ?thesis by (auto simp: cgschnet_settings_def variable_settings_def)
qed

end
